theory Spec2Isabelle
  imports Complex_Main
begin

section \<open>Python values\<close>

text \<open>
  A float64 is modelled by the real number it denotes, extended with the three special
  values that numpy's arithmetic produces instead of raising (division by zero gives
  \<open>inf\<close>, \<open>-inf\<close> or \<open>nan\<close>). Rounding and the sign of zero are not modelled.
\<close>

datatype pyfloat = Finite real | PosInf | NegInf | NaN

fun pf_neg :: "pyfloat \<Rightarrow> pyfloat" where
  "pf_neg (Finite x) = Finite (- x)"
| "pf_neg PosInf = NegInf"
| "pf_neg NegInf = PosInf"
| "pf_neg NaN = NaN"

fun pf_add :: "pyfloat \<Rightarrow> pyfloat \<Rightarrow> pyfloat" where
  "pf_add (Finite x) (Finite y) = Finite (x + y)"
| "pf_add NaN b = NaN"
| "pf_add a NaN = NaN"
| "pf_add PosInf NegInf = NaN"
| "pf_add NegInf PosInf = NaN"
| "pf_add PosInf b = PosInf"
| "pf_add NegInf b = NegInf"
| "pf_add a PosInf = PosInf"
| "pf_add a NegInf = NegInf"

definition pf_sub :: "pyfloat \<Rightarrow> pyfloat \<Rightarrow> pyfloat" where
  "pf_sub a b = pf_add a (pf_neg b)"

definition inf_of_sign :: "real \<Rightarrow> pyfloat" where
  "inf_of_sign s = (if s > 0 then PosInf else if s < 0 then NegInf else NaN)"

fun pf_mul :: "pyfloat \<Rightarrow> pyfloat \<Rightarrow> pyfloat" where
  "pf_mul (Finite x) (Finite y) = Finite (x * y)"
| "pf_mul NaN b = NaN"
| "pf_mul a NaN = NaN"
| "pf_mul PosInf (Finite y) = inf_of_sign y"
| "pf_mul NegInf (Finite y) = inf_of_sign (- y)"
| "pf_mul (Finite x) PosInf = inf_of_sign x"
| "pf_mul (Finite x) NegInf = inf_of_sign (- x)"
| "pf_mul PosInf PosInf = PosInf"
| "pf_mul NegInf NegInf = PosInf"
| "pf_mul PosInf NegInf = NegInf"
| "pf_mul NegInf PosInf = NegInf"

fun pf_div :: "pyfloat \<Rightarrow> pyfloat \<Rightarrow> pyfloat" where
  "pf_div (Finite x) (Finite y) = (if y \<noteq> 0 then Finite (x / y) else inf_of_sign x)"
| "pf_div NaN b = NaN"
| "pf_div a NaN = NaN"
| "pf_div (Finite x) b = Finite 0"
| "pf_div PosInf (Finite y) = (if y < 0 then NegInf else PosInf)"
| "pf_div NegInf (Finite y) = (if y < 0 then PosInf else NegInf)"
| "pf_div PosInf PosInf = NaN"
| "pf_div PosInf NegInf = NaN"
| "pf_div NegInf PosInf = NaN"
| "pf_div NegInf NegInf = NaN"

text \<open>\<open>a < b\<close> on floats: every comparison with \<open>nan\<close> is false.\<close>

fun pf_less :: "pyfloat \<Rightarrow> pyfloat \<Rightarrow> bool" where
  "pf_less (Finite x) (Finite y) = (x < y)"
| "pf_less NaN b = False"
| "pf_less a NaN = False"
| "pf_less a NegInf = False"
| "pf_less PosInf b = False"
| "pf_less NegInf b = True"
| "pf_less a PosInf = True"

text \<open>
  The values that the analysis dictionaries hold. A Python \<open>dict\<close> keeps insertion
  order, so it is an association list.
\<close>

datatype pyval =
    PNone
  | PStr string
  | PInt int
  | PFloat pyfloat
  | PList "pyval list"
  | PDict "(string \<times> pyval) list"

type_synonym pydict = "(string \<times> pyval) list"

datatype py_error =
    KeyError string
  | ValueError string
  | TypeError string
  | AttributeError string
  | ZeroDivisionError

text \<open>The numeric value of an \<open>int\<close> or a \<open>float\<close> in a comparison.\<close>

fun num :: "pyval \<Rightarrow> pyfloat" where
  "num (PInt i) = Finite (of_int i)"
| "num (PFloat f) = f"
| "num v = NaN"

text \<open>\<open>d.get(k, default)\<close>\<close>

definition dict_get :: "pydict \<Rightarrow> string \<Rightarrow> pyval \<Rightarrow> pyval" where
  "dict_get d k dflt = (case map_of d k of None \<Rightarrow> dflt | Some v \<Rightarrow> v)"

section \<open>Pandas series\<close>

text \<open>\<open>Series.mean()\<close>: the mean of no values is \<open>nan\<close>.\<close>

definition series_mean :: "real list \<Rightarrow> pyfloat" where
  "series_mean xs = (if xs = [] then NaN else Finite (sum_list xs / real (length xs)))"

text \<open>\<open>Series.std()\<close>: the sample standard deviation, \<open>nan\<close> for fewer than two values.\<close>

definition series_std :: "real list \<Rightarrow> pyfloat" where
  "series_std xs =
     (if length xs < 2 then NaN
      else (let m = sum_list xs / real (length xs)
            in Finite (sqrt (sum_list (map (\<lambda>x. (x - m)\<^sup>2) xs) / real (length xs - 1)))))"

text \<open>
  \<open>Series.iloc[start:stop]\<close>: a negative bound counts from the end, and both bounds
  are clipped to the series. \<open>None\<close> is an omitted bound.
\<close>

definition slice_bound :: "nat \<Rightarrow> int \<Rightarrow> nat" where
  "slice_bound n i = (if i < 0 then nat (max 0 (int n + i)) else min n (nat i))"

definition iloc_slice :: "'a list \<Rightarrow> int option \<Rightarrow> int option \<Rightarrow> 'a list" where
  "iloc_slice xs start stop =
     (let n = length xs;
          lo = (case start of None \<Rightarrow> 0 | Some i \<Rightarrow> slice_bound n i);
          hi = (case stop of None \<Rightarrow> n | Some i \<Rightarrow> slice_bound n i)
      in drop lo (take hi xs))"

section \<open>The environment and the state\<close>

record price_row =
  pr_date :: int
  pr_crop :: string
  pr_price :: real

record news_row =
  nw_date :: int
  nw_crop :: string
  nw_headline :: string
  nw_sentiment :: string

record weather_row =
  wt_date :: int
  wt_region :: string
  wt_temperature :: real
  wt_precipitation :: real
  wt_conditions :: string

datatype level = INFO | WARNING | ERROR

text \<open>A file of the advisory cache: the JSON value it holds, or a file that cannot be
  read or parsed (with the text of the exception that reading it raises).\<close>

datatype cache_file = Stored pyval | Unreadable string

text \<open>
  What the process keeps between calls: \<open>DataAnalyzer.analysis_results\<close>, the files
  under \<open>cache/\<close>, what was logged, and the prompts sent to the language model.
\<close>

record world =
  analysis_results :: "string \<rightharpoonup> pyval"
  cache_files :: "string \<rightharpoonup> cache_file"
  logged :: "(level \<times> string) list"
  llm_calls :: "string list"

text \<open>
  What a call finds outside the process: the tables of the data collector, the clock
  (in microseconds) and its rendering, the outcome of drawing the chart, the library
  functions \<open>hashlib.md5(...).hexdigest()\<close>, \<open>str\<close> of a value and the \<open>.Nf\<close> format
  of a float, the language model (\<open>Inl\<close> the text of the exception it raises, \<open>Inr\<close>
  the advice it returns) and whether writing a file fails (the text of the exception).
\<close>

record env =
  load_or_fetch_historical_prices :: "string \<Rightarrow> price_row list"
  load_or_fetch_market_news :: "string \<Rightarrow> news_row list"
  load_or_fetch_weather_forecast :: "string \<Rightarrow> weather_row list"
  now :: int
  strftime :: "string \<Rightarrow> int \<Rightarrow> string"
  savefig_error :: "string \<Rightarrow> string option"
  md5_hexdigest :: "string \<Rightarrow> string"
  py_str :: "pyval \<Rightarrow> string"
  format_f :: "nat \<Rightarrow> pyfloat \<Rightarrow> string"
  chat_completion :: "string \<Rightarrow> string + string"
  write_error :: "string \<Rightarrow> string option"

definition logging :: "level \<Rightarrow> string \<Rightarrow> world \<Rightarrow> world" where
  "logging l msg w = w\<lparr>logged := logged w @ [(l, msg)]\<rparr>"

definition timedelta_days :: "int \<Rightarrow> int" where
  "timedelta_days d = d * 86400000000"

text \<open>\<open>s.replace(' ', '_')\<close>\<close>

definition replace_space :: "string \<Rightarrow> string" where
  "replace_space s = map (\<lambda>c. if c = CHR '' '' then CHR ''_'' else c) s"

section \<open>data_analyzer.py\<close>

definition generate_price_chart :: "env \<Rightarrow> string \<Rightarrow> string \<Rightarrow> world \<Rightarrow> world" where
  "generate_price_chart e crop timeframe w =
     (let chart_path = ''analysis/'' @ crop @ ''_'' @ replace_space timeframe @ ''_chart.png''
      in case savefig_error e chart_path of
           None \<Rightarrow> logging INFO (''Chart saved to '' @ chart_path) w
         | Some err \<Rightarrow> logging ERROR (''Error generating chart: '' @ err) w)"

text \<open>Lines 27 to 35 of \<open>analyze_price_trends\<close>: the days of a timeframe.\<close>

definition timeframe_days :: "string \<Rightarrow> int" where
  "timeframe_days timeframe =
     (if timeframe = ''1 week'' then 7
      else if timeframe = ''1 month'' then 30
      else if timeframe = ''3 months'' then 90
      else 30)"

text \<open>Lines 37 to 43: the rows of the trailing window that ends now.\<close>

definition filter_timeframe :: "env \<Rightarrow> string \<Rightarrow> price_row list \<Rightarrow> price_row list" where
  "filter_timeframe e timeframe historical_data =
     (let end_date = now e;
          start_date = end_date - timedelta_days (timeframe_days timeframe)
      in filter (\<lambda>r. pr_date r \<ge> start_date) historical_data)"

text \<open>Lines 52 to 62: the trend of a percentage change.\<close>

definition price_trend :: "pyfloat \<Rightarrow> string" where
  "price_trend price_change_pct =
     (if pf_less (Finite 5) price_change_pct then ''strongly increasing''
      else if pf_less (Finite 1) price_change_pct then ''slightly increasing''
      else if pf_less price_change_pct (Finite (- 5)) then ''strongly decreasing''
      else if pf_less price_change_pct (Finite (- 1)) then ''slightly decreasing''
      else ''stable'')"

text \<open>
  Lines 67 to 76: the projected price and the projected change, from the prices of
  the window (which has a last price).
\<close>

definition price_projection :: "real list \<Rightarrow> pyval \<times> pyval" where
  "price_projection prices =
     (let current_price = last prices
      in if length prices > 7 then
           (let recent_trend =
                  pf_sub (series_mean (iloc_slice prices (Some (- 7)) None))
                         (series_mean (iloc_slice prices (Some (- 14)) (Some (- 7))));
                projected_price = pf_add (Finite current_price) recent_trend;
                projection_pct =
                  pf_mul (pf_sub (pf_div projected_price (Finite current_price)) (Finite 1))
                         (Finite 100)
            in (PFloat projected_price, PFloat projection_pct))
         else (PFloat (Finite current_price), PInt 0))"

text \<open>
  The dates are modelled as parsed already. Line 39 reads \<open>historical_data['date'][0]\<close>
  before anything checks that there is a row: on a table without rows the label \<open>0\<close> is
  not in the index and pandas raises \<open>KeyError\<close>.
\<close>

definition analyze_price_trends ::
  "env \<Rightarrow> string \<Rightarrow> string \<Rightarrow> world \<Rightarrow> (py_error + pyval option) \<times> world" where
  "analyze_price_trends e crop timeframe w =
     (let w1 = logging INFO (''Analyzing price trends for '' @ crop @ '' over '' @ timeframe) w;
          historical_data = load_or_fetch_historical_prices e crop
      in if historical_data = [] then (Inl (KeyError ''0''), w1)
         else
          (let filtered_data = filter_timeframe e timeframe historical_data;
               prices = map pr_price filtered_data
           in if length filtered_data > 0 then
                (let current_price = last prices;
                     avg_price = series_mean prices;
                     price_change = last prices - hd prices;
                     price_change_pct =
                       pf_mul (pf_div (Finite price_change) (Finite (hd prices))) (Finite 100);
                     trend = price_trend price_change_pct;
                     volatility = series_std prices;
                     (projected_price, projection_pct) = price_projection prices;
                     analysis = PDict
                       [(''crop'', PStr crop),
                        (''timeframe'', PStr timeframe),
                        (''current_price'', PFloat (Finite current_price)),
                        (''average_price'', PFloat avg_price),
                        (''price_change'', PFloat (Finite price_change)),
                        (''price_change_pct'', PFloat price_change_pct),
                        (''trend'', PStr trend),
                        (''volatility'', PFloat volatility),
                        (''projected_price'', projected_price),
                        (''projection_pct'', projection_pct)];
                     w2 = w1\<lparr>analysis_results :=
                              (analysis_results w1)(crop @ ''_'' @ timeframe \<mapsto> analysis)\<rparr>;
                     w3 = generate_price_chart e crop timeframe w2
                 in (Inr (Some analysis), w3))
              else
                (Inr None,
                 logging WARNING (''No data available for '' @ crop @ '' over '' @ timeframe) w1)))"

text \<open>
  \<open>news_data['sentiment'].value_counts().get(label, 0)\<close>: how many rows carry the label.
\<close>

definition value_count :: "news_row list \<Rightarrow> string \<Rightarrow> int" where
  "value_count news_data label = int (length (filter (\<lambda>r. nw_sentiment r = label) news_data))"

text \<open>\<open>a / b\<close> on Python integers raises on a zero divisor.\<close>

definition truediv :: "int \<Rightarrow> int \<Rightarrow> py_error + real" where
  "truediv a b = (if b = 0 then Inl ZeroDivisionError else Inr (real_of_int a / real_of_int b))"

text \<open>Lines 117 to 121: the score, an integer \<open>0\<close> when nothing was counted.\<close>

definition sentiment_score :: "int \<Rightarrow> int \<Rightarrow> int \<Rightarrow> py_error + pyval" where
  "sentiment_score pos_count neg_count neutral_count =
     (let total_count = pos_count + neg_count + neutral_count
      in if total_count > 0
         then map_sum id (\<lambda>q. PFloat (Finite q)) (truediv (pos_count - neg_count) total_count)
         else Inr (PInt 0))"

text \<open>Lines 123 to 133: the trend of a score.\<close>

definition sentiment_trend :: "pyval \<Rightarrow> string" where
  "sentiment_trend score =
     (if pf_less (Finite 0.5) (num score) then ''strongly positive''
      else if pf_less (Finite 0.1) (num score) then ''positive''
      else if pf_less (num score) (Finite (- 0.5)) then ''strongly negative''
      else if pf_less (num score) (Finite (- 0.1)) then ''negative''
      else ''neutral'')"

definition analyze_market_sentiment ::
  "env \<Rightarrow> string \<Rightarrow> world \<Rightarrow> (py_error + pyval option) \<times> world" where
  "analyze_market_sentiment e crop w =
     (let w1 = logging INFO (''Analyzing market sentiment for '' @ crop) w;
          news_data = load_or_fetch_market_news e crop
      in if length news_data > 0 then
           (let pos_count = value_count news_data ''positive'';
                neg_count = value_count news_data ''negative'';
                neutral_count = value_count news_data ''neutral''
            in case sentiment_score pos_count neg_count neutral_count of
                 Inl err \<Rightarrow> (Inl err, w1)
               | Inr score \<Rightarrow>
                  (let analysis = PDict
                         [(''crop'', PStr crop),
                          (''sentiment_score'', score),
                          (''sentiment_trend'', PStr (sentiment_trend score)),
                          (''positive_news_count'', PInt pos_count),
                          (''negative_news_count'', PInt neg_count),
                          (''neutral_news_count'', PInt neutral_count),
                          (''headlines'', PList (map (\<lambda>r. PStr (nw_headline r)) news_data))];
                       w2 = w1\<lparr>analysis_results :=
                                (analysis_results w1)(crop @ ''_sentiment'' \<mapsto> analysis)\<rparr>
                   in (Inr (Some analysis), w2)))
         else (Inr None, logging WARNING (''No news data available for '' @ crop) w1))"

text \<open>Lines 165 to 202 of \<open>analyze_weather_impact\<close>: the impact and its explanation.\<close>

definition weather_impact :: "string \<Rightarrow> real \<Rightarrow> real \<Rightarrow> string \<times> string" where
  "weather_impact crop avg_temp total_precip =
     (if crop = ''wheat'' then
        (if avg_temp > 25 \<and> total_precip < 10 then
           (''negative'', ''High temperatures and low precipitation may stress wheat crops.'')
         else if avg_temp < 15 \<and> total_precip > 30 then
           (''negative'', ''Low temperatures and excessive rainfall may damage wheat crops.'')
         else
           (''neutral to positive'', ''Weather conditions appear favorable for wheat crops.''))
      else if crop = ''corn'' then
        (if avg_temp < 18 \<or> total_precip < 15 then
           (''negative'', ''Low temperatures or insufficient rainfall may reduce corn yields.'')
         else if avg_temp > 30 \<and> total_precip < 20 then
           (''negative'', ''High heat and insufficient moisture may stress corn crops.'')
         else
           (''neutral to positive'', ''Weather conditions appear favorable for corn growth.''))
      else if crop = ''soybeans'' then
        (if avg_temp < 20 \<or> total_precip < 10 then
           (''negative'', ''Low temperatures or dry conditions may reduce soybean yields.'')
         else if total_precip > 40 then
           (''negative'', ''Excessive rainfall may lead to disease pressure in soybeans.'')
         else
           (''neutral to positive'', ''Weather conditions appear favorable for soybean development.''))
      else
        (''uncertain'', ''Weather impact analysis not specifically calibrated for '' @ crop @ ''.''))"

definition analyze_weather_impact ::
  "env \<Rightarrow> string \<Rightarrow> string \<Rightarrow> world \<Rightarrow> pyval option \<times> world" where
  "analyze_weather_impact e crop region w =
     (let w1 = logging INFO (''Analyzing weather impact for '' @ crop @ '' in '' @ region) w;
          weather_data = load_or_fetch_weather_forecast e region
      in if length weather_data > 0 then
           (let avg_temp = sum_list (map wt_temperature weather_data) / real (length weather_data);
                total_precip = sum_list (map wt_precipitation weather_data);
                (impact, explanation) = weather_impact crop avg_temp total_precip;
                analysis = PDict
                  [(''crop'', PStr crop),
                   (''region'', PStr region),
                   (''average_temperature'', PFloat (Finite avg_temp)),
                   (''total_precipitation'', PFloat (Finite total_precip)),
                   (''weather_impact'', PStr impact),
                   (''explanation'', PStr explanation)];
                w2 = w1\<lparr>analysis_results :=
                         (analysis_results w1)(crop @ ''_weather'' \<mapsto> analysis)\<rparr>
            in (Some analysis, w2))
         else (None, logging WARNING (''No weather data available for '' @ region) w1))"

text \<open>\<open>self.analysis_results.get(key, {})\<close>\<close>

definition results_get :: "world \<Rightarrow> string \<Rightarrow> pyval" where
  "results_get w key = (case analysis_results w key of None \<Rightarrow> PDict [] | Some v \<Rightarrow> v)"

definition get_comprehensive_analysis ::
  "env \<Rightarrow> string \<Rightarrow> string \<Rightarrow> world \<Rightarrow> (py_error + pyval) \<times> world" where
  "get_comprehensive_analysis e crop timeframe w =
     (let w0 = logging INFO (''Generating comprehensive analysis for '' @ crop) w;
          (r1, w1) = (if analysis_results w0 (crop @ ''_'' @ timeframe) = None
                      then analyze_price_trends e crop timeframe w0
                      else (Inr None, w0))
      in case r1 of
           Inl err \<Rightarrow> (Inl err, w1)
         | Inr _ \<Rightarrow>
            (let (r2, w2) = (if analysis_results w1 (crop @ ''_sentiment'') = None
                             then analyze_market_sentiment e crop w1
                             else (Inr None, w1))
             in case r2 of
                  Inl err \<Rightarrow> (Inl err, w2)
                | Inr _ \<Rightarrow>
                   (let w3 = (if analysis_results w2 (crop @ ''_weather'') = None
                              then snd (analyze_weather_impact e crop ''midwest'' w2)
                              else w2);
                        price_analysis = results_get w3 (crop @ ''_'' @ timeframe);
                        sentiment_analysis = results_get w3 (crop @ ''_sentiment'');
                        weather_analysis = results_get w3 (crop @ ''_weather'');
                        comprehensive = PDict
                          [(''crop'', PStr crop),
                           (''timeframe'', PStr timeframe),
                           (''price_analysis'', price_analysis),
                           (''sentiment_analysis'', sentiment_analysis),
                           (''weather_analysis'', weather_analysis),
                           (''analysis_date'', PStr (strftime e ''%Y-%m-%d'' (now e)))]
                    in (Inr comprehensive, w3))))"

section \<open>llm_interface.py\<close>

definition and_then :: "'e + 'a \<Rightarrow> ('a \<Rightarrow> 'e + 'b) \<Rightarrow> 'e + 'b" where
  "and_then m f = (case m of Inl err \<Rightarrow> Inl err | Inr x \<Rightarrow> f x)"

text \<open>\<open>str(v)\<close>: a string is itself, every other value is rendered by the library.\<close>

definition str_of :: "env \<Rightarrow> pyval \<Rightarrow> string" where
  "str_of e v = (case v of PStr s \<Rightarrow> s | _ \<Rightarrow> py_str e v)"

text \<open>\<open>v[key]\<close> with a string key: only a dictionary that has the key answers.\<close>

definition subscript :: "pyval \<Rightarrow> string \<Rightarrow> py_error + pyval" where
  "subscript v key =
     (case v of
        PDict d \<Rightarrow> (case map_of d key of None \<Rightarrow> Inl (KeyError key) | Some x \<Rightarrow> Inr x)
      | _ \<Rightarrow> Inl (TypeError ''indices must be integers or the object is not subscriptable''))"

text \<open>\<open>v.get(key, default)\<close>: only a dictionary has the method.\<close>

definition py_get :: "pyval \<Rightarrow> string \<Rightarrow> pyval \<Rightarrow> py_error + pyval" where
  "py_get v key dflt =
     (case v of
        PDict d \<Rightarrow> Inr (dict_get d key dflt)
      | _ \<Rightarrow> Inl (AttributeError ''object has no attribute 'get' ''))"

text \<open>\<open>s.upper()\<close> on the ASCII letters; only a string has the method.\<close>

definition upper_char :: "char \<Rightarrow> char" where
  "upper_char c =
     (if (97::nat) \<le> of_char c \<and> of_char c \<le> (122::nat)
      then char_of (of_char c - (32::nat)) else c)"

definition py_upper :: "pyval \<Rightarrow> py_error + string" where
  "py_upper v =
     (case v of
        PStr s \<Rightarrow> Inr (map upper_char s)
      | _ \<Rightarrow> Inl (AttributeError ''object has no attribute 'upper' ''))"

text \<open>
  \<open>f"{v:.Nf}"\<close>: a float or an integer is formatted; a string (such as the default
  \<open>'N/A'\<close>) raises \<open>ValueError\<close>, anything else \<open>TypeError\<close>.
\<close>

definition format_fixed :: "env \<Rightarrow> nat \<Rightarrow> pyval \<Rightarrow> py_error + string" where
  "format_fixed e digits v =
     (case v of
        PFloat f \<Rightarrow> Inr (format_f e digits f)
      | PInt i \<Rightarrow> Inr (format_f e digits (Finite (of_int i)))
      | PStr s \<Rightarrow> Inl (ValueError ''Unknown format code 'f' for object of type 'str' '')
      | _ \<Rightarrow> Inl (TypeError ''unsupported format string passed to __format__''))"

text \<open>\<open>v.get(key, 'N/A')\<close> formatted with \<open>.Nf\<close>.\<close>

definition get_fixed :: "env \<Rightarrow> pyval \<Rightarrow> string \<Rightarrow> nat \<Rightarrow> py_error + string" where
  "get_fixed e v key digits =
     and_then (py_get v key (PStr ''N/A'')) (format_fixed e digits)"

text \<open>\<open>v.get(key, 'N/A')\<close> formatted without a format code.\<close>

definition get_plain :: "env \<Rightarrow> pyval \<Rightarrow> string \<Rightarrow> py_error + string" where
  "get_plain e v key = and_then (py_get v key (PStr ''N/A'')) (\<lambda>x. Inr (str_of e x))"

text \<open>
  \<open>['  - ' + headline for headline in sentiment_analysis.get('headlines', [])[:3]]\<close>:
  the slice of a list is its first three items, the slice of a string its first three
  characters; only a string can be appended to \<open>'  - '\<close>.
\<close>

definition headline_lines :: "pyval \<Rightarrow> py_error + string list" where
  "headline_lines sentiment_analysis =
     and_then (py_get sentiment_analysis ''headlines'' (PList []))
       (\<lambda>hs. and_then
          (case hs of
             PList xs \<Rightarrow> Inr (take 3 xs)
           | PStr s \<Rightarrow> Inr (map (\<lambda>c. PStr [c]) (take 3 s))
           | _ \<Rightarrow> Inl (TypeError ''object is not subscriptable''))
          (\<lambda>xs. if list_all (\<lambda>x. case x of PStr _ \<Rightarrow> True | _ \<Rightarrow> False) xs
                then Inr (map (\<lambda>x. ''  - '' @ (case x of PStr h \<Rightarrow> h | _ \<Rightarrow> [])) xs)
                else Inl (TypeError ''can only concatenate str to str'')))"

definition nl :: string where
  "nl = [CHR 0x0A]"

text \<open>\<open>chr(10).join(lines)\<close>\<close>

fun join_lines :: "string list \<Rightarrow> string" where
  "join_lines [] = []"
| "join_lines [x] = x"
| "join_lines (x # y # ys) = x @ nl @ join_lines (y # ys)"

definition format_prompt ::
  "env \<Rightarrow> pyval \<Rightarrow> pyval \<Rightarrow> pyval \<Rightarrow> pyval \<Rightarrow> pyval \<Rightarrow> string \<Rightarrow> py_error + string" where
  "format_prompt e crop timeframe price_analysis sentiment_analysis weather_analysis farmer_query =
     and_then (py_upper crop) (\<lambda>crop_upper.
     and_then (get_fixed e price_analysis ''current_price'' 2) (\<lambda>current_price.
     and_then (get_plain e price_analysis ''trend'') (\<lambda>trend.
     and_then (get_fixed e price_analysis ''price_change_pct'' 2) (\<lambda>price_change_pct.
     and_then (get_fixed e price_analysis ''projection_pct'' 2) (\<lambda>projection_pct.
     and_then (get_fixed e price_analysis ''volatility'' 2) (\<lambda>volatility.
     and_then (get_plain e sentiment_analysis ''sentiment_trend'') (\<lambda>sentiment_trend.
     and_then (headline_lines sentiment_analysis) (\<lambda>headlines.
     and_then (get_plain e weather_analysis ''weather_impact'') (\<lambda>weather_impact.
     and_then (get_plain e weather_analysis ''explanation'') (\<lambda>explanation.
     and_then (get_fixed e weather_analysis ''average_temperature'' 1) (\<lambda>average_temperature.
     and_then (get_fixed e weather_analysis ''total_precipitation'' 1) (\<lambda>total_precipitation.
     Inr (nl
       @ ''Here is the current market analysis for '' @ crop_upper @ '':'' @ nl
       @ nl
       @ ''PRICE ANALYSIS ('' @ str_of e timeframe @ ''):'' @ nl
       @ ''- Current price: $'' @ current_price @ '' per bushel'' @ nl
       @ ''- Price trend: '' @ trend @ nl
       @ ''- Price change: '' @ price_change_pct @ ''% over the last '' @ str_of e timeframe @ nl
       @ ''- Projected price change: '' @ projection_pct @ ''% in the coming ''
           @ str_of e timeframe @ nl
       @ ''- Price volatility: '' @ volatility @ nl
       @ nl
       @ ''MARKET SENTIMENT:'' @ nl
       @ ''- Overall sentiment: '' @ sentiment_trend @ nl
       @ ''- Recent headlines:'' @ nl
       @ join_lines headlines @ nl
       @ nl
       @ ''WEATHER FORECAST IMPACT:'' @ nl
       @ ''- Weather impact: '' @ weather_impact @ nl
       @ ''- Explanation: '' @ explanation @ nl
       @ ''- Average temperature: '' @ average_temperature
           @ [CHR 0xC3, CHR 0x82, CHR 0xC2, CHR 0xB0] @ ''C'' @ nl
       @ ''- Total precipitation forecast: '' @ total_precipitation @ '' mm'' @ nl
       @ nl
       @ ''Based on this analysis, provide specific advice in response to the farmer's question:''
       @ nl
       @ [CHR 0x22] @ farmer_query @ [CHR 0x22] @ nl
       @ nl
       @ ''Your advice should include:'' @ nl
       @ ''1. A clear recommendation (sell now, hold, or partial sale)'' @ nl
       @ ''2. Reasoning behind your recommendation'' @ nl
       @ ''3. Timing suggestions (when to sell if not now)'' @ nl
       @ ''4. Risks to be aware of'' @ nl
       @ ''5. Alternative strategies to consider'' @ nl)))))))))))))"

text \<open>Lines 25 and 26 of \<open>get_advisory\<close>: the key and the file of the cache entry.\<close>

definition cache_key :: "env \<Rightarrow> pyval \<Rightarrow> string \<Rightarrow> string" where
  "cache_key e analysis_data farmer_query =
     md5_hexdigest e (str_of e analysis_data @ ''_'' @ farmer_query)"

definition cache_file :: "env \<Rightarrow> pyval \<Rightarrow> string \<Rightarrow> string" where
  "cache_file e analysis_data farmer_query =
     ''cache/'' @ cache_key e analysis_data farmer_query @ ''.json''"

text \<open>
  Lines 41 to 48: the fields read from the analysis and the prompt built from them,
  before the \<open>try\<close> block is entered.
\<close>

definition prepare_prompt ::
  "env \<Rightarrow> pyval \<Rightarrow> string \<Rightarrow> py_error + (pyval \<times> pyval \<times> pyval \<times> pyval \<times> string)" where
  "prepare_prompt e analysis_data farmer_query =
     and_then (subscript analysis_data ''crop'') (\<lambda>crop.
     and_then (subscript analysis_data ''timeframe'') (\<lambda>timeframe.
     and_then (subscript analysis_data ''price_analysis'') (\<lambda>price_analysis.
     and_then (subscript analysis_data ''sentiment_analysis'') (\<lambda>sentiment_analysis.
     and_then (subscript analysis_data ''weather_analysis'') (\<lambda>weather_analysis.
     and_then (format_prompt e crop timeframe price_analysis sentiment_analysis
                 weather_analysis farmer_query) (\<lambda>prompt.
     Inr (crop, price_analysis, sentiment_analysis, weather_analysis, prompt)))))))"

text \<open>\<open>d.get(key)\<close> on a value that is known to be a dictionary (the prompt was built).\<close>

definition get_or_none :: "pyval \<Rightarrow> string \<Rightarrow> pyval" where
  "get_or_none v key = (case v of PDict d \<Rightarrow> dict_get d key PNone | _ \<Rightarrow> PNone)"

text \<open>Lines 69 to 81: the response built around the advice of the model.\<close>

definition advisory_response :: "env \<Rightarrow> string \<Rightarrow> pyval \<Rightarrow> string \<Rightarrow> pyval \<Rightarrow> pyval \<Rightarrow> pyval \<Rightarrow> pyval" where
  "advisory_response e farmer_query crop advice_text price_analysis sentiment_analysis
       weather_analysis =
     PDict
       [(''query'', PStr farmer_query),
        (''crop'', crop),
        (''advice'', PStr advice_text),
        (''data_summary'', PDict
           [(''current_price'', get_or_none price_analysis ''current_price''),
            (''price_trend'', get_or_none price_analysis ''trend''),
            (''projected_price_change'', get_or_none price_analysis ''projection_pct''),
            (''market_sentiment'', get_or_none sentiment_analysis ''sentiment_trend''),
            (''weather_impact'', get_or_none weather_analysis ''weather_impact'')]),
        (''timestamp'', PStr (strftime e ''%Y-%m-%d %H:%M:%S'' (now e)))]"

text \<open>Lines 90 to 97: the handler of the \<open>try\<close> block.\<close>

definition advisory_failed :: "env \<Rightarrow> string \<Rightarrow> pyval \<Rightarrow> string \<Rightarrow> world \<Rightarrow> pyval \<times> world" where
  "advisory_failed e farmer_query crop err w =
     (PDict
        [(''query'', PStr farmer_query),
         (''crop'', crop),
         (''advice'', PStr (''Unable to generate advisory at this time. Error: '' @ err)),
         (''timestamp'', PStr (strftime e ''%Y-%m-%d %H:%M:%S'' (now e)))],
      logging ERROR (''Error generating advisory: '' @ err) w)"

text \<open>
  Lines 38 to 97: what \<open>get_advisory\<close> does when the cache did not answer. A write
  that fails is an \<open>open\<close> that fails: the file is left as it was.
\<close>

definition generate_advisory ::
  "env \<Rightarrow> pyval \<Rightarrow> string \<Rightarrow> world \<Rightarrow> (py_error + pyval) \<times> world" where
  "generate_advisory e analysis_data farmer_query w =
     (let w1 = logging INFO
                 (''Generating new LLM advisory for query: '' @ take 30 farmer_query @ ''...'') w
      in case prepare_prompt e analysis_data farmer_query of
           Inl err \<Rightarrow> (Inl err, w1)
         | Inr (crop, price_analysis, sentiment_analysis, weather_analysis, prompt) \<Rightarrow>
            (let w2 = w1\<lparr>llm_calls := llm_calls w1 @ [prompt]\<rparr>
             in case chat_completion e prompt of
                  Inl err \<Rightarrow> map_prod Inr id (advisory_failed e farmer_query crop err w2)
                | Inr advice_text \<Rightarrow>
                   (let response = advisory_response e farmer_query crop advice_text
                                     price_analysis sentiment_analysis weather_analysis;
                        path = cache_file e analysis_data farmer_query
                    in case write_error e path of
                         Some err \<Rightarrow> map_prod Inr id (advisory_failed e farmer_query crop err w2)
                       | None \<Rightarrow>
                          (Inr response,
                           logging INFO ''Advisory generated and cached''
                             (w2\<lparr>cache_files := (cache_files w2)(path \<mapsto> Stored response)\<rparr>)))))"

definition get_advisory ::
  "env \<Rightarrow> pyval \<Rightarrow> string \<Rightarrow> bool \<Rightarrow> world \<Rightarrow> (py_error + pyval) \<times> world" where
  "get_advisory e analysis_data farmer_query force_refresh w =
     (let path = cache_file e analysis_data farmer_query
      in if \<not> force_refresh \<and> cache_files w path \<noteq> None then
           (case cache_files w path of
              Some (Stored cached_response) \<Rightarrow>
                (Inr cached_response,
                 logging INFO
                   (''Using cached LLM response for query: '' @ take 30 farmer_query @ ''...'') w)
            | Some (Unreadable err) \<Rightarrow>
                generate_advisory e analysis_data farmer_query
                  (logging ERROR (''Error reading cache: '' @ err) w)
            | None \<Rightarrow> generate_advisory e analysis_data farmer_query w)
         else generate_advisory e analysis_data farmer_query w)"

section \<open>The documented behaviour, in the words of the specification\<close>

text \<open>
  The points of a series at the given offsets from its end (\<open>-1\<close> is the last point);
  an offset that reaches before the first point names no point.
\<close>

definition points_at_offsets :: "real list \<Rightarrow> int list \<Rightarrow> real list" where
  "points_at_offsets xs offsets =
     map (\<lambda>k. xs ! nat (int (length xs) + k))
         (filter (\<lambda>k. 0 \<le> int (length xs) + k) offsets)"

definition mean :: "real list \<Rightarrow> real" where
  "mean xs = sum_list xs / real (length xs)"

text \<open>The branches of the weather classification, as the specification lists them.\<close>

datatype weather_branch =
    WheatHeatDry | WheatColdWet | WheatElse
  | CornColdOrDry | CornHeatDry | CornElse
  | SoyColdOrDry | SoyWet | SoyElse
  | OtherCrop

fun branch_applies :: "weather_branch \<Rightarrow> string \<Rightarrow> real \<Rightarrow> real \<Rightarrow> bool" where
  "branch_applies WheatHeatDry crop t p = (crop = ''wheat'' \<and> t > 25 \<and> p < 10)"
| "branch_applies WheatColdWet crop t p = (crop = ''wheat'' \<and> t < 15 \<and> p > 30)"
| "branch_applies WheatElse crop t p =
     (crop = ''wheat'' \<and> \<not> (t > 25 \<and> p < 10) \<and> \<not> (t < 15 \<and> p > 30))"
| "branch_applies CornColdOrDry crop t p = (crop = ''corn'' \<and> (t < 18 \<or> p < 15))"
| "branch_applies CornHeatDry crop t p =
     (crop = ''corn'' \<and> \<not> (t < 18 \<or> p < 15) \<and> t > 30 \<and> p < 20)"
| "branch_applies CornElse crop t p =
     (crop = ''corn'' \<and> \<not> (t < 18 \<or> p < 15) \<and> \<not> (t > 30 \<and> p < 20))"
| "branch_applies SoyColdOrDry crop t p = (crop = ''soybeans'' \<and> (t < 20 \<or> p < 10))"
| "branch_applies SoyWet crop t p = (crop = ''soybeans'' \<and> \<not> (t < 20 \<or> p < 10) \<and> p > 40)"
| "branch_applies SoyElse crop t p =
     (crop = ''soybeans'' \<and> \<not> (t < 20 \<or> p < 10) \<and> \<not> p > 40)"
| "branch_applies OtherCrop crop t p =
     (crop \<noteq> ''wheat'' \<and> crop \<noteq> ''corn'' \<and> crop \<noteq> ''soybeans'')"

fun branch_impact :: "weather_branch \<Rightarrow> string" where
  "branch_impact WheatHeatDry = ''negative''"
| "branch_impact WheatColdWet = ''negative''"
| "branch_impact WheatElse = ''neutral to positive''"
| "branch_impact CornColdOrDry = ''negative''"
| "branch_impact CornHeatDry = ''negative''"
| "branch_impact CornElse = ''neutral to positive''"
| "branch_impact SoyColdOrDry = ''negative''"
| "branch_impact SoyWet = ''negative''"
| "branch_impact SoyElse = ''neutral to positive''"
| "branch_impact OtherCrop = ''uncertain''"

text \<open>How often a message was logged at level \<open>INFO\<close>.\<close>

definition times_logged :: "string \<Rightarrow> world \<Rightarrow> nat" where
  "times_logged msg w = length (filter (\<lambda>entry. entry = (INFO, msg)) (logged w))"

section \<open>Example inputs\<close>

text \<open>The state of a process that has just constructed its components.\<close>

definition fresh_world :: world where
  "fresh_world =
     \<lparr>analysis_results = Map.empty, cache_files = Map.empty, logged = [], llm_calls = []\<rparr>"

definition day :: "int \<Rightarrow> int" where
  "day n = n * 86400000000"

text \<open>
  Eight daily prices (the example window of the specification), four news items and two
  forecast days, read on the day of the last price. The library functions are simple
  stand-ins; the model answers and the cache can be written.
\<close>

definition example_prices :: "price_row list" where
  "example_prices =
     [\<lparr>pr_date = day 0, pr_crop = ''wheat'', pr_price = 100\<rparr>,
      \<lparr>pr_date = day 1, pr_crop = ''wheat'', pr_price = 102\<rparr>,
      \<lparr>pr_date = day 2, pr_crop = ''wheat'', pr_price = 99\<rparr>,
      \<lparr>pr_date = day 3, pr_crop = ''wheat'', pr_price = 101\<rparr>,
      \<lparr>pr_date = day 4, pr_crop = ''wheat'', pr_price = 105\<rparr>,
      \<lparr>pr_date = day 5, pr_crop = ''wheat'', pr_price = 108\<rparr>,
      \<lparr>pr_date = day 6, pr_crop = ''wheat'', pr_price = 107\<rparr>,
      \<lparr>pr_date = day 7, pr_crop = ''wheat'', pr_price = 110\<rparr>]"

definition example_news :: "news_row list" where
  "example_news =
     [\<lparr>nw_date = day 1, nw_crop = ''wheat'', nw_headline = ''Demand increases'',
       nw_sentiment = ''positive''\<rparr>,
      \<lparr>nw_date = day 2, nw_crop = ''wheat'', nw_headline = ''Trade deal'',
       nw_sentiment = ''positive''\<rparr>,
      \<lparr>nw_date = day 2, nw_crop = ''wheat'', nw_headline = ''Stockpiles up'',
       nw_sentiment = ''negative''\<rparr>,
      \<lparr>nw_date = day 3, nw_crop = ''wheat'', nw_headline = ''Strong market'',
       nw_sentiment = ''positive''\<rparr>]"

definition example_weather :: "weather_row list" where
  "example_weather =
     [\<lparr>wt_date = day 8, wt_region = ''midwest'', wt_temperature = 26, wt_precipitation = 3,
       wt_conditions = ''sunny''\<rparr>,
      \<lparr>wt_date = day 9, wt_region = ''midwest'', wt_temperature = 28, wt_precipitation = 4,
       wt_conditions = ''cloudy''\<rparr>]"

definition example_env :: env where
  "example_env =
     \<lparr>load_or_fetch_historical_prices = (\<lambda>crop. example_prices),
      load_or_fetch_market_news = (\<lambda>crop. example_news),
      load_or_fetch_weather_forecast = (\<lambda>region. example_weather),
      now = day 7,
      strftime = (\<lambda>fmt t. if t = day 7 then ''day 7'' else ''later''),
      savefig_error = (\<lambda>path. None),
      md5_hexdigest = (\<lambda>s. s),
      py_str = (\<lambda>v. ''{}''),
      format_f = (\<lambda>digits f. ''0.0''),
      chat_completion = (\<lambda>prompt. Inr ''Hold for now.''),
      write_error = (\<lambda>path. None)\<rparr>"

text \<open>A comprehensive analysis as \<open>get_advisory\<close> receives it.\<close>

definition example_analysis :: pyval where
  "example_analysis =
     PDict
       [(''crop'', PStr ''wheat''),
        (''timeframe'', PStr ''1 month''),
        (''price_analysis'', PDict
           [(''current_price'', PFloat (Finite 110)),
            (''price_change_pct'', PFloat (Finite 10)),
            (''trend'', PStr ''strongly increasing''),
            (''volatility'', PFloat (Finite 4)),
            (''projection_pct'', PFloat (Finite 4))]),
        (''sentiment_analysis'', PDict
           [(''sentiment_trend'', PStr ''positive''),
            (''headlines'', PList [PStr ''Demand increases''])]),
        (''weather_analysis'', PDict
           [(''average_temperature'', PFloat (Finite 27)),
            (''total_precipitation'', PFloat (Finite 7)),
            (''weather_impact'', PStr ''negative''),
            (''explanation'', PStr ''High temperatures and low precipitation may stress wheat crops.'')]),
        (''analysis_date'', PStr ''day 7'')]"

text \<open>Two prices a week apart whose change is exactly five percent.\<close>

definition boundary_env :: env where
  "boundary_env =
     example_env\<lparr>load_or_fetch_historical_prices :=
       (\<lambda>crop. [\<lparr>pr_date = day 6, pr_crop = ''wheat'', pr_price = 100\<rparr>,
                 \<lparr>pr_date = day 7, pr_crop = ''wheat'', pr_price = 105\<rparr>])\<rparr>"

text \<open>The example with no news items, and the example with a price table without rows.\<close>

definition no_news_env :: env where
  "no_news_env = example_env\<lparr>load_or_fetch_market_news := (\<lambda>crop. [])\<rparr>"

definition no_prices_env :: env where
  "no_prices_env = example_env\<lparr>load_or_fetch_historical_prices := (\<lambda>crop. [])\<rparr>"

text \<open>
  The example with a language model that fails, the example a day later, the example with
  a cache directory that cannot be written, and the prompt built for the example analysis.
\<close>

definition failing_env :: env where
  "failing_env = example_env\<lparr>chat_completion := (\<lambda>prompt. Inl ''Connection error.'')\<rparr>"

definition later_env :: env where
  "later_env = example_env\<lparr>now := day 8\<rparr>"

definition write_fails_env :: env where
  "write_fails_env = example_env\<lparr>write_error := (\<lambda>path. Some ''Permission denied'')\<rparr>"

definition example_prompt :: string where
  "example_prompt =
     (case prepare_prompt example_env example_analysis ''Sell?'' of
        Inr (crop, price_analysis, sentiment_analysis, weather_analysis, prompt) \<Rightarrow> prompt
      | Inl err \<Rightarrow> [])"

section \<open>Series and slices\<close>


lemma filter_upto_ge: "filter (\<lambda>k. l \<le> k) [a..b] = [max a l..b]"
proof (induction a b rule: upto.induct)
  case (1 i j)
  show ?case
  proof (cases "i \<le> j")
    case True
    then have step: "[i..j] = i # [i + 1..j]" by (simp add: upto_rec1)
    show ?thesis
    proof (cases "l \<le> i")
      case True
      with 1 [OF \<open>i \<le> j\<close>] step show ?thesis by (simp add: max_def)
    next
      case False
      with 1 [OF \<open>i \<le> j\<close>] step show ?thesis by (simp add: max_def)
    qed
  next
    case False
    then show ?thesis by simp
  qed
qed

lemma points_at_offsets_slice:
  assumes "b < 0"
  shows "points_at_offsets xs [a..b] =
         drop (nat (max 0 (int (length xs) + a))) (take (nat (max 0 (int (length xs) + b + 1))) xs)"
proof -
  let ?n = "int (length xs)"
  let ?c = "max a (- ?n)"
  let ?lo = "nat (max 0 (?n + a))"
  let ?hi = "nat (max 0 (?n + b + 1))"
  have "(\<lambda>k. 0 \<le> ?n + k) = (\<lambda>k. - ?n \<le> k)" by auto
  then have flt: "filter (\<lambda>k. 0 \<le> ?n + k) [a..b] = [?c..b]"
    by (simp only: filter_upto_ge)
  have hi: "?hi \<le> length xs" using assms by simp
  show ?thesis
  proof (rule nth_equalityI)
    show "length (points_at_offsets xs [a..b]) = length (drop ?lo (take ?hi xs))"
      using hi by (simp add: points_at_offsets_def flt)
  next
    fix i assume "i < length (points_at_offsets xs [a..b])"
    then have i: "i < nat (b - ?c + 1)" by (simp add: points_at_offsets_def flt)
    then have "?c + int i \<le> b" by linarith
    then have nth: "[?c..b] ! i = ?c + int i" by (rule nth_upto)
    have idx: "nat (?n + (?c + int i)) = ?lo + i" by linarith
    have lt: "?lo + i < ?hi" using i by linarith
    have "points_at_offsets xs [a..b] ! i = xs ! (?lo + i)"
      using i nth idx by (simp add: points_at_offsets_def flt)
    also have "\<dots> = drop ?lo (take ?hi xs) ! i"
      using lt hi by simp
    finally show "points_at_offsets xs [a..b] ! i = drop ?lo (take ?hi xs) ! i" .
  qed
qed

lemma last_seven: "iloc_slice xs (Some (- 7)) None = points_at_offsets xs [- 7..- 1]"
  using points_at_offsets_slice [of "- 1" xs "- 7"]
  by (simp add: iloc_slice_def slice_bound_def Let_def)

lemma seven_before: "iloc_slice xs (Some (- 14)) (Some (- 7)) = points_at_offsets xs [- 14..- 8]"
  using points_at_offsets_slice [of "- 8" xs "- 14"]
  by (simp add: iloc_slice_def slice_bound_def Let_def)

lemma last_seven_nonempty: "7 < length xs \<Longrightarrow> points_at_offsets xs [- 7..- 1] \<noteq> []"
  using points_at_offsets_slice [of "- 1" xs "- 7"] by simp

lemma seven_before_nonempty: "7 < length xs \<Longrightarrow> points_at_offsets xs [- 14..- 8] \<noteq> []"
  using points_at_offsets_slice [of "- 8" xs "- 14"] by simp

lemma price_projection_long:
  assumes "7 < length prices"
  shows "price_projection prices =
     (let projected_price =
            last prices + (mean (points_at_offsets prices [- 7..- 1])
                           - mean (points_at_offsets prices [- 14..- 8]))
      in (PFloat (Finite projected_price),
          PFloat (pf_mul (pf_sub (pf_div (Finite projected_price) (Finite (last prices))) (Finite 1))
                         (Finite 100))))"
proof -
  show ?thesis
    using assms last_seven_nonempty [OF assms] seven_before_nonempty [OF assms]
    by (simp add: price_projection_def Let_def last_seven seven_before series_mean_def mean_def
        pf_sub_def)
qed

lemma price_projection_short:
  "\<not> 7 < length prices \<Longrightarrow> price_projection prices = (PFloat (Finite (last prices)), PInt 0)"
  by (simp add: price_projection_def)

lemma sentiment_score_total:
  "\<exists>score. sentiment_score p n u = Inr score \<and>
     (0 < p + n + u \<longrightarrow> score = PFloat (Finite (real_of_int (p - n) / real_of_int (p + n + u)))) \<and>
     (\<not> 0 < p + n + u \<longrightarrow> score = PInt 0)"
  by (simp add: sentiment_score_def truediv_def Let_def)

lemma value_count_nonneg: "0 \<le> value_count news label"
  by (simp add: value_count_def)

lemma score_bounds:
  assumes "0 \<le> p" "0 \<le> n" "0 \<le> u" "0 < p + n + u"
  shows "- 1 \<le> real_of_int (p - n) / real_of_int (p + n + u)"
    and "real_of_int (p - n) / real_of_int (p + n + u) \<le> 1"
  using assms by (simp_all add: field_simps)

lemma branch_unique:
  "branch_applies b crop t p \<Longrightarrow> branch_applies b' crop t p \<Longrightarrow> b = b'"
  by (cases b; cases b'; simp)

lemma branch_exists: "\<exists>b. branch_applies b crop t p"
proof -
  have "branch_applies WheatHeatDry crop t p \<or> branch_applies WheatColdWet crop t p \<or>
        branch_applies WheatElse crop t p \<or> branch_applies CornColdOrDry crop t p \<or>
        branch_applies CornHeatDry crop t p \<or> branch_applies CornElse crop t p \<or>
        branch_applies SoyColdOrDry crop t p \<or> branch_applies SoyWet crop t p \<or>
        branch_applies SoyElse crop t p \<or> branch_applies OtherCrop crop t p"
    by (simp only: branch_applies.simps) blast
  then show ?thesis by blast
qed

lemma branch_impact_code:
  "branch_applies b crop t p \<Longrightarrow> fst (weather_impact crop t p) = branch_impact b"
  by (cases b) (auto simp: weather_impact_def)

section \<open>The price trend analyzer\<close>

lemma price_window_result:
  assumes "filter_timeframe e timeframe (load_or_fetch_historical_prices e crop) \<noteq> []"
  shows "fst (analyze_price_trends e crop timeframe w) =
     (let prices = map pr_price (filter_timeframe e timeframe (load_or_fetch_historical_prices e crop));
          pct = pf_mul (pf_div (Finite (last prices - hd prices)) (Finite (hd prices))) (Finite 100)
      in Inr (Some (PDict
           [(''crop'', PStr crop),
            (''timeframe'', PStr timeframe),
            (''current_price'', PFloat (Finite (last prices))),
            (''average_price'', PFloat (series_mean prices)),
            (''price_change'', PFloat (Finite (last prices - hd prices))),
            (''price_change_pct'', PFloat pct),
            (''trend'', PStr (price_trend pct)),
            (''volatility'', PFloat (series_std prices)),
            (''projected_price'', fst (price_projection prices)),
            (''projection_pct'', snd (price_projection prices))])))"
proof -
  from assms have ne: "load_or_fetch_historical_prices e crop \<noteq> []"
    by (auto simp: filter_timeframe_def)
  show ?thesis
    using assms ne
    by (simp add: analyze_price_trends_def Let_def split_beta)
qed

text \<open>
  C2. For every non-empty price window, the trend that \<open>analyze_price_trends\<close> returns
  is the ladder on \<open>price_change_pct\<close>: above 5 strongly increasing, else above 1
  slightly increasing, else below -5 strongly decreasing, else below -1 slightly
  decreasing, else stable. The boundary values fall through to the weaker branch:
  exactly 5 is slightly increasing, exactly 1, 0 and -1 are stable, exactly -5 is
  slightly decreasing.
\<close>

theorem price_trend_ladder:
  assumes "filter_timeframe e timeframe (load_or_fetch_historical_prices e crop) \<noteq> []"
  shows "\<exists>a pct.
           fst (analyze_price_trends e crop timeframe w) = Inr (Some (PDict a)) \<and>
           map_of a ''price_change_pct'' = Some (PFloat pct) \<and>
           map_of a ''trend'' = Some (PStr
             (if pf_less (Finite 5) pct then ''strongly increasing''
              else if pf_less (Finite 1) pct then ''slightly increasing''
              else if pf_less pct (Finite (- 5)) then ''strongly decreasing''
              else if pf_less pct (Finite (- 1)) then ''slightly decreasing''
              else ''stable'')) \<and>
           (pct = Finite 5 \<longrightarrow> map_of a ''trend'' = Some (PStr ''slightly increasing'')) \<and>
           (pct = Finite 1 \<longrightarrow> map_of a ''trend'' = Some (PStr ''stable'')) \<and>
           (pct = Finite 0 \<longrightarrow> map_of a ''trend'' = Some (PStr ''stable'')) \<and>
           (pct = Finite (- 1) \<longrightarrow> map_of a ''trend'' = Some (PStr ''stable'')) \<and>
           (pct = Finite (- 5) \<longrightarrow> map_of a ''trend'' = Some (PStr ''slightly decreasing''))"
  unfolding price_window_result [OF assms] Let_def
  by (simp add: price_trend_def)

text \<open>The window \<open>[100, 105]\<close> changes by exactly 5 percent: slightly increasing.\<close>

lemma boundary_window:
  "filter_timeframe boundary_env ''1 week'' (load_or_fetch_historical_prices boundary_env ''wheat'') =
     [\<lparr>pr_date = day 6, pr_crop = ''wheat'', pr_price = 100\<rparr>,
      \<lparr>pr_date = day 7, pr_crop = ''wheat'', pr_price = 105\<rparr>]"
  by (simp add: boundary_env_def example_env_def filter_timeframe_def timeframe_days_def
      timedelta_days_def day_def)

theorem price_trend_ladder_witness:
  "filter_timeframe boundary_env ''1 week'' (load_or_fetch_historical_prices boundary_env ''wheat'') \<noteq> [] \<and>
   (\<exists>a. fst (analyze_price_trends boundary_env ''wheat'' ''1 week'' fresh_world) = Inr (Some (PDict a)) \<and>
        map_of a ''price_change_pct'' = Some (PFloat (Finite 5)) \<and>
        map_of a ''trend'' = Some (PStr ''slightly increasing''))"
proof -
  have ne: "filter_timeframe boundary_env ''1 week''
              (load_or_fetch_historical_prices boundary_env ''wheat'') \<noteq> []"
    by (simp add: boundary_window)
  have pct: "fst (analyze_price_trends boundary_env ''wheat'' ''1 week'' fresh_world) = Inr (Some (PDict a))
      \<Longrightarrow> map_of a ''price_change_pct'' = Some (PFloat (Finite 5))" for a
    by (auto simp: price_window_result [OF ne] boundary_window Let_def)
  from price_trend_ladder [OF ne, of fresh_world] pct ne show ?thesis
    by fastforce
qed

text \<open>
  C7. For every non-empty price window: with more than 7 points, \<open>recent_trend\<close> is
  the mean of the last 7 points minus the mean of the points at offsets -14 to -8 (those
  of them that the window has), \<open>projected_price\<close> is \<open>current_price + recent_trend\<close>
  and \<open>projection_pct\<close> is \<open>(projected_price / current_price - 1) * 100\<close>; with 7
  points or fewer, \<open>projected_price\<close> is \<open>current_price\<close> and \<open>projection_pct\<close> is 0.
\<close>

theorem price_projection_rule:
  assumes "filter_timeframe e timeframe (load_or_fetch_historical_prices e crop) \<noteq> []"
  shows "\<exists>a. fst (analyze_price_trends e crop timeframe w) = Inr (Some (PDict a)) \<and>
     (let prices = map pr_price
                     (filter_timeframe e timeframe (load_or_fetch_historical_prices e crop));
          current_price = last prices
      in map_of a ''current_price'' = Some (PFloat (Finite current_price)) \<and>
         (if 7 < length prices then
            (let recent_trend = mean (points_at_offsets prices [- 7..- 1])
                                - mean (points_at_offsets prices [- 14..- 8]);
                 projected_price = current_price + recent_trend
             in map_of a ''projected_price'' = Some (PFloat (Finite projected_price)) \<and>
                map_of a ''projection_pct'' = Some (PFloat
                  (pf_mul (pf_sub (pf_div (Finite projected_price) (Finite current_price))
                                  (Finite 1))
                          (Finite 100))) \<and>
                (current_price \<noteq> 0 \<longrightarrow>
                   map_of a ''projection_pct'' =
                     Some (PFloat (Finite ((projected_price / current_price - 1) * 100)))))
          else map_of a ''projected_price'' = Some (PFloat (Finite current_price)) \<and>
               map_of a ''projection_pct'' = Some (PInt 0)))"
proof (cases "7 < length (map pr_price
                 (filter_timeframe e timeframe (load_or_fetch_historical_prices e crop)))")
  case True
  show ?thesis
    unfolding price_window_result [OF assms]
    using True
    by (simp add: Let_def price_projection_long [OF True] pf_sub_def)
next
  case False
  show ?thesis
    unfolding price_window_result [OF assms]
    using False
    by (simp add: Let_def price_projection_short [OF False])
qed

text \<open>The eight prices of the example: the projection is \<open>110 + 32/7\<close>.\<close>

lemma example_window:
  "filter_timeframe example_env ''1 month'' (load_or_fetch_historical_prices example_env ''wheat'') =
     example_prices"
  by (simp add: example_env_def example_prices_def filter_timeframe_def timeframe_days_def
      timedelta_days_def day_def)

theorem price_projection_rule_witness:
  "filter_timeframe example_env ''1 month'' (load_or_fetch_historical_prices example_env ''wheat'') \<noteq> [] \<and>
   (\<exists>a. fst (analyze_price_trends example_env ''wheat'' ''1 month'' fresh_world) = Inr (Some (PDict a)) \<and>
        map_of a ''current_price'' = Some (PFloat (Finite 110)) \<and>
        map_of a ''projected_price'' = Some (PFloat (Finite (802 / 7))) \<and>
        map_of a ''projection_pct'' = Some (PFloat (Finite (320 / 77))))"
proof -
  have ne: "filter_timeframe example_env ''1 month''
              (load_or_fetch_historical_prices example_env ''wheat'') \<noteq> []"
    by (simp add: example_window example_prices_def)
  have pts: "points_at_offsets (map pr_price example_prices) [- 7..- 1] = [102, 99, 101, 105, 108, 107, 110]"
     "points_at_offsets (map pr_price example_prices) [- 14..- 8] = [100]"
    by code_simp+
  have last: "last (map pr_price example_prices) = 110" "length (map pr_price example_prices) = 8"
    by (simp_all add: example_prices_def)
  from price_projection_rule [OF ne, of fresh_world]
  have "\<exists>a. fst (analyze_price_trends example_env ''wheat'' ''1 month'' fresh_world) = Inr (Some (PDict a)) \<and>
        map_of a ''current_price'' = Some (PFloat (Finite 110)) \<and>
        map_of a ''projected_price'' = Some (PFloat (Finite (802 / 7))) \<and>
        map_of a ''projection_pct'' = Some (PFloat (Finite (320 / 77)))"
    unfolding example_window Let_def pts mean_def last by simp blast
  with ne show ?thesis by simp
qed


section \<open>The sentiment analyzer\<close>

lemma sentiment_result:
  assumes "load_or_fetch_market_news e crop \<noteq> []"
  shows "fst (analyze_market_sentiment e crop w) =
     (let news_data = load_or_fetch_market_news e crop;
          pos_count = value_count news_data ''positive'';
          neg_count = value_count news_data ''negative'';
          neutral_count = value_count news_data ''neutral''
      in case sentiment_score pos_count neg_count neutral_count of
           Inl err \<Rightarrow> Inl err
         | Inr score \<Rightarrow> Inr (Some (PDict
             [(''crop'', PStr crop),
              (''sentiment_score'', score),
              (''sentiment_trend'', PStr (sentiment_trend score)),
              (''positive_news_count'', PInt pos_count),
              (''negative_news_count'', PInt neg_count),
              (''neutral_news_count'', PInt neutral_count),
              (''headlines'', PList (map (\<lambda>r. PStr (nw_headline r)) news_data))])))"
  using assms by (simp add: analyze_market_sentiment_def Let_def split: sum.splits)

text \<open>
  C6. For every non-empty news list, \<open>sentiment_score\<close> is
  \<open>(positive - negative) / total\<close> and lies between -1 and 1; when the total of the
  positive, negative and neutral counts is 0 nothing is divided (the call does not raise),
  the score is 0 and the trend is neutral.
\<close>

theorem sentiment_score_rule:
  assumes "load_or_fetch_market_news e crop \<noteq> []"
  shows "\<exists>a score r.
     fst (analyze_market_sentiment e crop w) = Inr (Some (PDict a)) \<and>
     map_of a ''sentiment_score'' = Some score \<and>
     num score = Finite r \<and> - 1 \<le> r \<and> r \<le> 1 \<and>
     (let news_data = load_or_fetch_market_news e crop;
          pos = value_count news_data ''positive'';
          neg = value_count news_data ''negative'';
          neutral = value_count news_data ''neutral'';
          total = pos + neg + neutral
      in (0 < total \<longrightarrow> score = PFloat (Finite (real_of_int (pos - neg) / real_of_int total))) \<and>
         (total = 0 \<longrightarrow> score = PInt 0 \<and>
            map_of a ''sentiment_trend'' = Some (PStr ''neutral'')))"
proof -
  let ?news = "load_or_fetch_market_news e crop"
  let ?p = "value_count ?news ''positive''"
  let ?n = "value_count ?news ''negative''"
  let ?u = "value_count ?news ''neutral''"
  have nonneg: "0 \<le> ?p" "0 \<le> ?n" "0 \<le> ?u"
    by (rule value_count_nonneg)+
  show ?thesis
  proof (cases "0 < ?p + ?n + ?u")
    case True
    then have score: "sentiment_score ?p ?n ?u =
        Inr (PFloat (Finite (real_of_int (?p - ?n) / real_of_int (?p + ?n + ?u))))"
      by (simp add: sentiment_score_def truediv_def Let_def)
    from score_bounds [OF nonneg True] True show ?thesis
      unfolding sentiment_result [OF assms] Let_def score by simp
  next
    case False
    with nonneg have zero: "?p + ?n + ?u = 0" by linarith
    from False have score: "sentiment_score ?p ?n ?u = Inr (PInt 0)"
      by (simp add: sentiment_score_def Let_def)
    from zero show ?thesis
      unfolding sentiment_result [OF assms] Let_def score
      by (simp add: sentiment_trend_def)
  qed
qed

text \<open>Three positive items and one negative: the score is one half.\<close>

theorem sentiment_score_rule_witness:
  "load_or_fetch_market_news example_env ''wheat'' \<noteq> [] \<and>
   (\<exists>a. fst (analyze_market_sentiment example_env ''wheat'' fresh_world) = Inr (Some (PDict a)) \<and>
        map_of a ''sentiment_score'' = Some (PFloat (Finite (1 / 2))))"
proof -
  have ne: "load_or_fetch_market_news example_env ''wheat'' \<noteq> []"
    by (simp add: example_env_def example_news_def)
  have counts: "value_count (load_or_fetch_market_news example_env ''wheat'') ''positive'' = 3"
    "value_count (load_or_fetch_market_news example_env ''wheat'') ''negative'' = 1"
    "value_count (load_or_fetch_market_news example_env ''wheat'') ''neutral'' = 0"
    by (simp_all add: example_env_def example_news_def value_count_def)
  from sentiment_score_rule [OF ne, of fresh_world]
  have "\<exists>a. fst (analyze_market_sentiment example_env ''wheat'' fresh_world) = Inr (Some (PDict a)) \<and>
        map_of a ''sentiment_score'' = Some (PFloat (Finite (1 / 2)))"
    unfolding counts Let_def by simp blast
  with ne show ?thesis by simp
qed

section \<open>The weather impact analyzer\<close>

text \<open>
  C5. The weather classification is a total function: for every crop, average temperature
  and total precipitation exactly one of the documented branches applies, the impact
  computed is the impact of that branch, and every crop other than wheat, corn and
  soybeans is classified as uncertain with the generic explanation that names the crop.
  The analysis returned for a non-empty forecast carries that impact and explanation.
\<close>

theorem weather_classification_total:
  "(\<exists>!b. branch_applies b crop avg_temp total_precip) \<and>
   (\<forall>b. branch_applies b crop avg_temp total_precip \<longrightarrow>
        fst (weather_impact crop avg_temp total_precip) = branch_impact b) \<and>
   (crop \<noteq> ''wheat'' \<and> crop \<noteq> ''corn'' \<and> crop \<noteq> ''soybeans'' \<longrightarrow>
      weather_impact crop avg_temp total_precip =
        (''uncertain'', ''Weather impact analysis not specifically calibrated for '' @ crop @ ''.'')) \<and>
   (load_or_fetch_weather_forecast e region \<noteq> [] \<longrightarrow>
      (\<exists>a. fst (analyze_weather_impact e crop region w) = Some (PDict a) \<and>
         (let weather_data = load_or_fetch_weather_forecast e region;
              t = sum_list (map wt_temperature weather_data) / real (length weather_data);
              p = sum_list (map wt_precipitation weather_data)
          in map_of a ''weather_impact'' = Some (PStr (fst (weather_impact crop t p))) \<and>
             map_of a ''explanation'' = Some (PStr (snd (weather_impact crop t p))))))"
proof (intro conjI)
  show "\<exists>!b. branch_applies b crop avg_temp total_precip"
    using branch_exists [of crop avg_temp total_precip] branch_unique by blast
  show "\<forall>b. branch_applies b crop avg_temp total_precip \<longrightarrow>
        fst (weather_impact crop avg_temp total_precip) = branch_impact b"
    by (simp add: branch_impact_code)
  show "crop \<noteq> ''wheat'' \<and> crop \<noteq> ''corn'' \<and> crop \<noteq> ''soybeans'' \<longrightarrow>
      weather_impact crop avg_temp total_precip =
        (''uncertain'', ''Weather impact analysis not specifically calibrated for '' @ crop @ ''.'')"
    by (simp add: weather_impact_def)
  show "load_or_fetch_weather_forecast e region \<noteq> [] \<longrightarrow>
      (\<exists>a. fst (analyze_weather_impact e crop region w) = Some (PDict a) \<and>
         (let weather_data = load_or_fetch_weather_forecast e region;
              t = sum_list (map wt_temperature weather_data) / real (length weather_data);
              p = sum_list (map wt_precipitation weather_data)
          in map_of a ''weather_impact'' = Some (PStr (fst (weather_impact crop t p))) \<and>
             map_of a ''explanation'' = Some (PStr (snd (weather_impact crop t p)))))"
    by (simp add: analyze_weather_impact_def Let_def split_beta)
qed

text \<open>Wheat at 27 degrees and 7 mm is the hot and dry branch; rice is uncertain.\<close>

theorem weather_classification_total_witness:
  "branch_applies WheatHeatDry ''wheat'' 27 7 \<and>
   fst (weather_impact ''wheat'' 27 7) = ''negative'' \<and>
   weather_impact ''rice'' 27 7 =
     (''uncertain'', ''Weather impact analysis not specifically calibrated for rice.'') \<and>
   load_or_fetch_weather_forecast example_env ''midwest'' \<noteq> [] \<and>
   (\<exists>a. fst (analyze_weather_impact example_env ''wheat'' ''midwest'' fresh_world) = Some (PDict a) \<and>
        map_of a ''weather_impact'' = Some (PStr ''negative''))"
proof -
  have b: "branch_applies WheatHeatDry ''wheat'' 27 7" by simp
  have ne: "load_or_fetch_weather_forecast example_env ''midwest'' \<noteq> []"
    by (simp add: example_env_def example_weather_def)
  have agg: "sum_list (map wt_temperature (load_or_fetch_weather_forecast example_env ''midwest'')) /
               real (length (load_or_fetch_weather_forecast example_env ''midwest'')) = 27"
     "sum_list (map wt_precipitation (load_or_fetch_weather_forecast example_env ''midwest'')) = 7"
    by (simp_all add: example_env_def example_weather_def)
  from weather_classification_total [of "''wheat''" 27 7 example_env "''midwest''" fresh_world] b
  have w: "fst (weather_impact ''wheat'' 27 7) = ''negative''"
    using branch_impact.simps(1) by metis
  from weather_classification_total [of "''rice''" 27 7 example_env "''midwest''" fresh_world]
  have r: "weather_impact ''rice'' 27 7 =
     (''uncertain'', ''Weather impact analysis not specifically calibrated for rice.'')" by simp
  from weather_classification_total [of "''wheat''" 27 7 example_env "''midwest''" fresh_world] ne
  have "\<exists>a. fst (analyze_weather_impact example_env ''wheat'' ''midwest'' fresh_world) = Some (PDict a) \<and>
        map_of a ''weather_impact'' = Some (PStr ''negative'')"
    unfolding agg Let_def w by blast
  with b w r ne show ?thesis by simp
qed

section \<open>The aggregator\<close>

lemma logged_logging [simp]: "logged (logging l m w) = logged w @ [(l, m)]"
  by (simp add: logging_def)

lemma results_logging [simp]: "analysis_results (logging l m w) = analysis_results w"
  by (simp add: logging_def)

lemma times_logged_logging:
  "times_logged m (logging l m' w) = times_logged m w + (if (l, m') = (INFO, m) then 1 else 0)"
  by (simp add: times_logged_def)

lemma price_keeps_keys:
  "analysis_results w k \<noteq> None \<Longrightarrow> analysis_results (snd (analyze_price_trends e crop tf w)) k \<noteq> None"
  by (simp add: analyze_price_trends_def Let_def split_beta generate_price_chart_def
      split: option.splits)

lemma sentiment_keeps_keys:
  "analysis_results w k \<noteq> None \<Longrightarrow> analysis_results (snd (analyze_market_sentiment e crop w)) k \<noteq> None"
  by (simp add: analyze_market_sentiment_def Let_def split: sum.splits)

lemma weather_keeps_keys:
  "analysis_results w k \<noteq> None \<Longrightarrow> analysis_results (snd (analyze_weather_impact e crop r w)) k \<noteq> None"
  by (simp add: analyze_weather_impact_def Let_def split_beta)

lemma price_logs:
  "times_logged (''Analyzing market sentiment for '' @ c) (snd (analyze_price_trends e crop tf w)) =
     times_logged (''Analyzing market sentiment for '' @ c) w"
  "times_logged (''Analyzing weather impact for '' @ c @ r) (snd (analyze_price_trends e crop tf w)) =
     times_logged (''Analyzing weather impact for '' @ c @ r) w"
  by (simp_all add: analyze_price_trends_def Let_def split_beta generate_price_chart_def
      times_logged_def split: option.splits)

lemma sentiment_logs:
  "times_logged (''Analyzing price trends for '' @ c) (snd (analyze_market_sentiment e crop w)) =
     times_logged (''Analyzing price trends for '' @ c) w"
  "times_logged (''Analyzing weather impact for '' @ c) (snd (analyze_market_sentiment e crop w)) =
     times_logged (''Analyzing weather impact for '' @ c) w"
  by (simp_all add: analyze_market_sentiment_def Let_def times_logged_def split: sum.splits)

lemma weather_logs:
  "times_logged (''Analyzing price trends for '' @ c) (snd (analyze_weather_impact e crop r w)) =
     times_logged (''Analyzing price trends for '' @ c) w"
  "times_logged (''Analyzing market sentiment for '' @ c) (snd (analyze_weather_impact e crop r w)) =
     times_logged (''Analyzing market sentiment for '' @ c) w"
  by (simp_all add: analyze_weather_impact_def Let_def split_beta times_logged_def)


lemma snd_case_sum:
  "snd (case x of Inl a \<Rightarrow> f a | Inr b \<Rightarrow> g b) = (case x of Inl a \<Rightarrow> snd (f a) | Inr b \<Rightarrow> snd (g b))"
  by (cases x) simp_all

lemma comprehensive_state:
  "snd (get_comprehensive_analysis e crop timeframe w) =
     (let w0 = logging INFO (''Generating comprehensive analysis for '' @ crop) w;
          p1 = (if analysis_results w0 (crop @ ''_'' @ timeframe) = None
                then analyze_price_trends e crop timeframe w0 else (Inr None, w0));
          p2 = (if analysis_results (snd p1) (crop @ ''_sentiment'') = None
                then analyze_market_sentiment e crop (snd p1) else (Inr None, snd p1));
          w3 = (if analysis_results (snd p2) (crop @ ''_weather'') = None
                then snd (analyze_weather_impact e crop ''midwest'' (snd p2)) else snd p2)
      in case fst p1 of Inl err \<Rightarrow> snd p1
         | Inr x \<Rightarrow> (case fst p2 of Inl err \<Rightarrow> snd p2 | Inr y \<Rightarrow> w3))"
  by (simp only: get_comprehensive_analysis_def Let_def split_beta snd_case_sum snd_conv)

lemma present_keys_skip:
  "(analysis_results w (crop @ ''_'' @ timeframe) \<noteq> None \<longrightarrow>
      times_logged (''Analyzing price trends for '' @ crop @ '' over '' @ timeframe)
          (snd (get_comprehensive_analysis e crop timeframe w)) =
        times_logged (''Analyzing price trends for '' @ crop @ '' over '' @ timeframe) w) \<and>
   (analysis_results w (crop @ ''_sentiment'') \<noteq> None \<longrightarrow>
      times_logged (''Analyzing market sentiment for '' @ crop)
          (snd (get_comprehensive_analysis e crop timeframe w)) =
        times_logged (''Analyzing market sentiment for '' @ crop) w) \<and>
   (analysis_results w (crop @ ''_weather'') \<noteq> None \<longrightarrow>
      times_logged (''Analyzing weather impact for '' @ crop @ '' in midwest'')
          (snd (get_comprehensive_analysis e crop timeframe w)) =
        times_logged (''Analyzing weather impact for '' @ crop @ '' in midwest'') w) \<and>
   (\<forall>k. analysis_results w k \<noteq> None \<longrightarrow>
        analysis_results (snd (get_comprehensive_analysis e crop timeframe w)) k \<noteq> None)"
proof -
  define w0 where "w0 = logging INFO (''Generating comprehensive analysis for '' @ crop) w"
  define p1 where "p1 = (if analysis_results w0 (crop @ ''_'' @ timeframe) = None
                then analyze_price_trends e crop timeframe w0 else (Inr None, w0))"
  define p2 where "p2 = (if analysis_results (snd p1) (crop @ ''_sentiment'') = None
                then analyze_market_sentiment e crop (snd p1) else (Inr None, snd p1))"
  define w3 where "w3 = (if analysis_results (snd p2) (crop @ ''_weather'') = None
                then snd (analyze_weather_impact e crop ''midwest'' (snd p2)) else snd p2)"
  define w' where "w' = snd (get_comprehensive_analysis e crop timeframe w)"
  have final: "w' = snd p1 \<or> w' = snd p2 \<or> w' = w3"
    unfolding w'_def comprehensive_state Let_def w0_def [symmetric] p1_def [symmetric]
      p2_def [symmetric] w3_def [symmetric]
    by (simp split: sum.splits)
  have k0: "analysis_results w0 = analysis_results w" by (simp add: w0_def)
  have k1: "analysis_results w0 k \<noteq> None \<Longrightarrow> analysis_results (snd p1) k \<noteq> None" for k
    by (simp add: p1_def price_keeps_keys del: not_None_eq)
  have k2: "analysis_results (snd p1) k \<noteq> None \<Longrightarrow> analysis_results (snd p2) k \<noteq> None" for k
    by (simp add: p2_def sentiment_keeps_keys del: not_None_eq)
  have k3: "analysis_results (snd p2) k \<noteq> None \<Longrightarrow> analysis_results w3 k \<noteq> None" for k
    by (simp add: w3_def weather_keeps_keys del: not_None_eq)
  have keys: "analysis_results w' k \<noteq> None" if "analysis_results w k \<noteq> None" for k
  proof -
    from that have b0: "analysis_results w0 k \<noteq> None" unfolding k0 .
    note b1 = k1 [OF b0]
    note b2 = k2 [OF b1]
    note b3 = k3 [OF b2]
    from final b1 b2 b3 show ?thesis by (elim disjE) simp_all
  qed
  have price: "times_logged (''Analyzing price trends for '' @ crop @ '' over '' @ timeframe) w' =
        times_logged (''Analyzing price trends for '' @ crop @ '' over '' @ timeframe) w"
    if present: "analysis_results w (crop @ ''_'' @ timeframe) \<noteq> None"
  proof -
    let ?m = "''Analyzing price trends for '' @ crop @ '' over '' @ timeframe"
    have a0: "times_logged ?m w0 = times_logged ?m w"
      by (simp add: w0_def times_logged_logging)
    have a1: "snd p1 = w0" using present by (auto simp: p1_def k0)
    have a2: "times_logged ?m (snd p2) = times_logged ?m (snd p1)"
      using sentiment_logs by (simp add: p2_def)
    have a3: "times_logged ?m w3 = times_logged ?m (snd p2)"
      using weather_logs by (simp add: w3_def)
    from final show ?thesis by (elim disjE) (simp_all only: a0 a1 a2 a3)
  qed
  have sentiment: "times_logged (''Analyzing market sentiment for '' @ crop) w' =
        times_logged (''Analyzing market sentiment for '' @ crop) w"
    if present: "analysis_results w (crop @ ''_sentiment'') \<noteq> None"
  proof -
    let ?m = "''Analyzing market sentiment for '' @ crop"
    have a0: "times_logged ?m w0 = times_logged ?m w"
      by (simp add: w0_def times_logged_logging)
    have a1: "times_logged ?m (snd p1) = times_logged ?m w0"
      using price_logs by (simp add: p1_def)
    have "analysis_results (snd p1) (crop @ ''_sentiment'') \<noteq> None"
      using present k0 k1 by (simp del: not_None_eq)
    then have a2: "snd p2 = snd p1" by (auto simp: p2_def)
    have a3: "times_logged ?m w3 = times_logged ?m (snd p2)"
      using weather_logs by (simp add: w3_def)
    from final show ?thesis by (elim disjE) (simp_all only: a0 a1 a2 a3)
  qed
  have weather: "times_logged (''Analyzing weather impact for '' @ crop @ '' in midwest'') w' =
        times_logged (''Analyzing weather impact for '' @ crop @ '' in midwest'') w"
    if present: "analysis_results w (crop @ ''_weather'') \<noteq> None"
  proof -
    let ?m = "''Analyzing weather impact for '' @ crop @ '' in midwest''"
    have a0: "times_logged ?m w0 = times_logged ?m w"
      by (simp add: w0_def times_logged_logging)
    have a1: "times_logged ?m (snd p1) = times_logged ?m w0"
      using price_logs by (simp add: p1_def)
    have a2: "times_logged ?m (snd p2) = times_logged ?m (snd p1)"
      using sentiment_logs by (simp add: p2_def)
    have "analysis_results (snd p2) (crop @ ''_weather'') \<noteq> None"
      using present k0 k1 k2 by (simp del: not_None_eq)
    then have a3: "w3 = snd p2" by (auto simp: w3_def)
    from final show ?thesis by (elim disjE) (simp_all only: a0 a1 a2 a3)
  qed
  from keys price sentiment weather show ?thesis
    unfolding w'_def by blast
qed

lemma price_empty_table:
  "load_or_fetch_historical_prices e crop = [] \<Longrightarrow>
   analyze_price_trends e crop tf w =
     (Inl (KeyError ''0''),
      logging INFO (''Analyzing price trends for '' @ crop @ '' over '' @ tf) w)"
  by (simp add: analyze_price_trends_def)

lemma comprehensive_empty_table:
  "load_or_fetch_historical_prices e crop = [] \<Longrightarrow>
   analysis_results w (crop @ ''_'' @ tf) = None \<Longrightarrow>
   fst (get_comprehensive_analysis e crop tf w) = Inl (KeyError ''0'')"
  by (simp add: get_comprehensive_analysis_def price_empty_table)

text \<open>
  C3 claims that an empty price window makes \<open>analyze_price_trends\<close> yield no result
  and leaves \<open>get_comprehensive_analysis\<close> with an empty section, without an error.
  The code does so when the table has rows and none is in the window; on a table without
  rows it raises \<open>KeyError\<close> from line 39, before the window is computed, and the
  aggregator lets the exception through.
\<close>

theorem empty_price_table_raises:
  "fst (analyze_price_trends no_prices_env ''wheat'' ''1 month'' fresh_world) = Inl (KeyError ''0'') \<and>
   fst (get_comprehensive_analysis no_prices_env ''wheat'' ''1 month'' fresh_world) =
     Inl (KeyError ''0'')"
proof -
  have t: "load_or_fetch_historical_prices no_prices_env ''wheat'' = []"
    by (simp add: no_prices_env_def)
  have k: "analysis_results fresh_world (''wheat'' @ ''_'' @ ''1 month'') = None"
    by (simp add: fresh_world_def)
  from price_empty_table [OF t] comprehensive_empty_table [OF t k] show ?thesis by simp
qed

lemma price_other_keys:
  "k \<noteq> crop @ ''_'' @ tf \<Longrightarrow>
   analysis_results (snd (analyze_price_trends e crop tf w)) k = analysis_results w k"
  by (simp add: analyze_price_trends_def Let_def split_beta generate_price_chart_def
      split: option.splits)

lemma weather_other_keys:
  "k \<noteq> crop @ ''_weather'' \<Longrightarrow>
   analysis_results (snd (analyze_weather_impact e crop r w)) k = analysis_results w k"
  by (simp add: analyze_weather_impact_def Let_def split_beta)

lemma price_returns:
  "load_or_fetch_historical_prices e crop \<noteq> [] \<Longrightarrow>
   \<exists>r. fst (analyze_price_trends e crop tf w) = Inr r"
  by (simp add: analyze_price_trends_def Let_def split_beta)

lemma sentiment_no_news:
  "load_or_fetch_market_news e crop = [] \<Longrightarrow>
   analyze_market_sentiment e crop w =
     (Inr None,
      logging WARNING (''No news data available for '' @ crop)
        (logging INFO (''Analyzing market sentiment for '' @ crop) w))"
  by (simp add: analyze_market_sentiment_def)


lemma absent_sentiment_reruns:
  assumes news: "load_or_fetch_market_news e crop = []"
    and hist: "load_or_fetch_historical_prices e crop \<noteq> []"
    and tf: "timeframe \<noteq> ''sentiment''"
    and absent: "analysis_results w (crop @ ''_sentiment'') = None"
  shows "times_logged (''Analyzing market sentiment for '' @ crop)
           (snd (get_comprehensive_analysis e crop timeframe w)) =
         Suc (times_logged (''Analyzing market sentiment for '' @ crop) w)"
    and "analysis_results (snd (get_comprehensive_analysis e crop timeframe w))
           (crop @ ''_sentiment'') = None"
proof -
  define m where "m = ''Analyzing market sentiment for '' @ crop"
  define sk where "sk = crop @ ''_sentiment''"
  define w0 where "w0 = logging INFO (''Generating comprehensive analysis for '' @ crop) w"
  define p1 where "p1 = (if analysis_results w0 (crop @ ''_'' @ timeframe) = None
                then analyze_price_trends e crop timeframe w0 else (Inr None, w0))"
  define p2 where "p2 = (if analysis_results (snd p1) (crop @ ''_sentiment'') = None
                then analyze_market_sentiment e crop (snd p1) else (Inr None, snd p1))"
  define w3 where "w3 = (if analysis_results (snd p2) (crop @ ''_weather'') = None
                then snd (analyze_weather_impact e crop ''midwest'' (snd p2)) else snd p2)"
  define w' where "w' = snd (get_comprehensive_analysis e crop timeframe w)"
  have r1: "\<exists>r. fst p1 = Inr r"
    using price_returns [OF hist, of timeframe w0] by (simp add: p1_def)
  have other: "sk \<noteq> crop @ ''_'' @ timeframe" "sk \<noteq> crop @ ''_weather''"
    using tf by (auto simp: sk_def)
  have k0: "analysis_results w0 sk = None"
    using absent by (simp add: w0_def sk_def)
  have k1: "analysis_results (snd p1) sk = None"
    using k0 price_other_keys [OF other(1), of e w0] by (simp add: p1_def)
  then have p2: "p2 = (Inr None,
      logging WARNING (''No news data available for '' @ crop) (logging INFO m (snd p1)))"
    by (simp add: p2_def sk_def m_def sentiment_no_news [OF news])
  have k2: "analysis_results (snd p2) sk = None"
    using k1 by (simp add: p2)
  have k3: "analysis_results w3 sk = None"
    using k2 weather_other_keys [OF other(2), of e "''midwest''" "snd p2"] by (simp add: w3_def)
  have final: "w' = w3"
    using r1 unfolding w'_def comprehensive_state Let_def w0_def [symmetric] p1_def [symmetric]
      p2_def [symmetric] w3_def [symmetric]
    by (auto simp: p2)
  have c0: "times_logged m w0 = times_logged m w"
    by (simp add: w0_def m_def times_logged_logging)
  have c1: "times_logged m (snd p1) = times_logged m w0"
    using price_logs(1) [of crop e crop timeframe w0] by (simp add: p1_def m_def)
  have c2: "times_logged m (snd p2) = Suc (times_logged m (snd p1))"
    by (simp add: p2 times_logged_logging)
  have c3: "times_logged m w3 = times_logged m (snd p2)"
    using weather_logs(2) [of crop e crop "''midwest''" "snd p2"] by (simp add: w3_def m_def)
  show "times_logged (''Analyzing market sentiment for '' @ crop)
           (snd (get_comprehensive_analysis e crop timeframe w)) =
         Suc (times_logged (''Analyzing market sentiment for '' @ crop) w)"
    using final c0 c1 c2 c3 unfolding w'_def m_def by (simp only:)
  show "analysis_results (snd (get_comprehensive_analysis e crop timeframe w))
           (crop @ ''_sentiment'') = None"
    using final k3 unfolding w'_def sk_def by (simp only:)
qed

text \<open>
  C9 as stated fails: without news the sentiment analyzer stores nothing, so two calls
  for the same crop run it twice.
\<close>

theorem absent_result_recomputed:
  "times_logged ''Analyzing market sentiment for wheat''
     (snd (get_comprehensive_analysis no_news_env ''wheat'' ''1 month''
        (snd (get_comprehensive_analysis no_news_env ''wheat'' ''1 month'' fresh_world)))) = 2"
proof -
  let ?w1 = "snd (get_comprehensive_analysis no_news_env ''wheat'' ''1 month'' fresh_world)"
  have news: "load_or_fetch_market_news no_news_env ''wheat'' = []"
    by (simp add: no_news_env_def)
  have hist: "load_or_fetch_historical_prices no_news_env ''wheat'' \<noteq> []"
    by (simp add: no_news_env_def example_env_def example_prices_def)
  have tf: "''1 month'' \<noteq> ''sentiment''" by simp
  have absent: "analysis_results fresh_world (''wheat'' @ ''_sentiment'') = None"
    by (simp add: fresh_world_def)
  have zero: "times_logged (''Analyzing market sentiment for '' @ ''wheat'') fresh_world = 0"
    by (simp add: times_logged_def fresh_world_def)
  note first = absent_sentiment_reruns [OF news hist tf absent]
  note second = absent_sentiment_reruns [OF news hist tf first(2)]
  from second(1) first(1) zero show ?thesis by simp
qed

section \<open>The advisory cache and requester\<close>

lemma llm_calls_logging [simp]: "llm_calls (logging l m w) = llm_calls w"
  by (simp add: logging_def)

lemma cache_files_logging [simp]: "cache_files (logging l m w) = cache_files w"
  by (simp add: logging_def)

lemma generate_prompt_error:
  assumes "prepare_prompt e a q = Inl err"
  shows "generate_advisory e a q w =
    (Inl err, logging INFO (''Generating new LLM advisory for query: '' @ take 30 q @ ''...'') w)"
  using assms by (simp add: generate_advisory_def)

lemma generate_failed:
  assumes "prepare_prompt e a q = Inr (crop, pa, sa, wa, prompt)"
    and "chat_completion e prompt = Inl err"
  shows "generate_advisory e a q w =
    (Inr (PDict
        [(''query'', PStr q),
         (''crop'', crop),
         (''advice'', PStr (''Unable to generate advisory at this time. Error: '' @ err)),
         (''timestamp'', PStr (strftime e ''%Y-%m-%d %H:%M:%S'' (now e)))]),
     logging ERROR (''Error generating advisory: '' @ err)
       ((logging INFO (''Generating new LLM advisory for query: '' @ take 30 q @ ''...'') w)
          \<lparr>llm_calls := llm_calls w @ [prompt]\<rparr>))"
  using assms by (simp add: generate_advisory_def advisory_failed_def)

lemma generate_write_failed:
  assumes "prepare_prompt e a q = Inr (crop, pa, sa, wa, prompt)"
    and "chat_completion e prompt = Inr advice"
    and "write_error e (cache_file e a q) = Some err"
  shows "generate_advisory e a q w =
    (Inr (PDict
        [(''query'', PStr q),
         (''crop'', crop),
         (''advice'', PStr (''Unable to generate advisory at this time. Error: '' @ err)),
         (''timestamp'', PStr (strftime e ''%Y-%m-%d %H:%M:%S'' (now e)))]),
     logging ERROR (''Error generating advisory: '' @ err)
       ((logging INFO (''Generating new LLM advisory for query: '' @ take 30 q @ ''...'') w)
          \<lparr>llm_calls := llm_calls w @ [prompt]\<rparr>))"
  using assms by (simp add: generate_advisory_def advisory_failed_def Let_def)

lemma generate_stored:
  assumes "prepare_prompt e a q = Inr (crop, pa, sa, wa, prompt)"
    and "chat_completion e prompt = Inr advice"
    and "write_error e (cache_file e a q) = None"
  shows "generate_advisory e a q w =
    (Inr (advisory_response e q crop advice pa sa wa),
     logging INFO ''Advisory generated and cached''
       ((logging INFO (''Generating new LLM advisory for query: '' @ take 30 q @ ''...'') w)
          \<lparr>llm_calls := llm_calls w @ [prompt],
            cache_files := (cache_files w)(cache_file e a q \<mapsto>
               Stored (advisory_response e q crop advice pa sa wa))\<rparr>))"
  using assms by (simp add: generate_advisory_def Let_def)

lemma advisory_miss:
  assumes "force \<or> cache_files w (cache_file e a q) = None"
  shows "get_advisory e a q force w = generate_advisory e a q w"
  using assms by (auto simp: get_advisory_def Let_def)

lemma advisory_unreadable:
  assumes "cache_files w (cache_file e a q) = Some (Unreadable err)"
  shows "get_advisory e a q force w =
     generate_advisory e a q (if force then w else logging ERROR (''Error reading cache: '' @ err) w)"
  using assms by (simp add: get_advisory_def Let_def)

lemma advisory_hit:
  assumes "cache_files w (cache_file e a q) = Some (Stored r)"
  shows "get_advisory e a q False w =
     (Inr r, logging INFO (''Using cached LLM response for query: '' @ take 30 q @ ''...'') w)"
  using assms by (simp add: get_advisory_def Let_def)

lemma str_of_cong:
  assumes "py_str e' = py_str e"
  shows "str_of e' = str_of e"
  using assms by (auto simp: str_of_def fun_eq_iff split: pyval.splits)

lemma format_fixed_cong:
  assumes "format_f e' = format_f e"
  shows "format_fixed e' = format_fixed e"
  using assms by (auto simp: format_fixed_def fun_eq_iff split: pyval.splits)

lemma prepare_prompt_cong:
  assumes "py_str e' = py_str e" and "format_f e' = format_f e"
  shows "prepare_prompt e' a q = prepare_prompt e a q"
  by (simp add: prepare_prompt_def format_prompt_def get_fixed_def get_plain_def
      str_of_cong [OF assms(1)] format_fixed_cong [OF assms(2)])

lemma cache_file_cong:
  assumes "py_str e' = py_str e" and "md5_hexdigest e' = md5_hexdigest e"
  shows "cache_file e' a q = cache_file e a q"
  by (simp add: cache_file_def cache_key_def str_of_cong [OF assms(1)] assms(2))


lemma example_prepare:
  "\<exists>pa sa wa prompt.
     prepare_prompt example_env example_analysis q = Inr (PStr ''wheat'', pa, sa, wa, prompt)"
  by (simp add: prepare_prompt_def subscript_def example_analysis_def format_prompt_def
      py_upper_def get_fixed_def get_plain_def py_get_def dict_get_def format_fixed_def
      str_of_def headline_lines_def and_then_def)

lemma generate_calls:
  "llm_calls (snd (generate_advisory e a q w)) =
     (case prepare_prompt e a q of
        Inl err \<Rightarrow> llm_calls w
      | Inr (crop, pa, sa, wa, prompt) \<Rightarrow> llm_calls w @ [prompt])"
  by (simp add: generate_advisory_def advisory_failed_def Let_def
      split: sum.splits option.splits prod.splits)

lemma advisory_cases:
  "(\<exists>r. \<not> force \<and> cache_files w (cache_file e a q) = Some (Stored r) \<and>
        get_advisory e a q force w =
          (Inr r, logging INFO (''Using cached LLM response for query: '' @ take 30 q @ ''...'') w)) \<or>
   (\<exists>w2. llm_calls w2 = llm_calls w \<and> cache_files w2 = cache_files w \<and>
         (force \<or> (\<forall>r. cache_files w (cache_file e a q) \<noteq> Some (Stored r))) \<and>
         get_advisory e a q force w = generate_advisory e a q w2)"
proof (cases "cache_files w (cache_file e a q)")
  case None
  then have "get_advisory e a q force w = generate_advisory e a q w"
    by (simp add: advisory_miss)
  with None show ?thesis by auto
next
  case (Some f)
  show ?thesis
  proof (cases f)
    case (Stored r)
    show ?thesis
    proof (cases force)
      case True
      then have "get_advisory e a q force w = generate_advisory e a q w"
        by (simp add: advisory_miss)
      with True show ?thesis by auto
    next
      case False
      with Some Stored advisory_hit [of w e a q r] show ?thesis by auto
    qed
  next
    case (Unreadable err)
    define w2 where
      "w2 = (if force then w else logging ERROR (''Error reading cache: '' @ err) w)"
    have "llm_calls w2 = llm_calls w" "cache_files w2 = cache_files w"
      by (simp_all add: w2_def)
    moreover have "get_advisory e a q force w = generate_advisory e a q w2"
      using Some Unreadable advisory_unreadable [of w e a q err force] by (simp add: w2_def)
    moreover have "\<forall>r. cache_files w (cache_file e a q) \<noteq> Some (Stored r)"
      using Some Unreadable by simp
    ultimately show ?thesis by blast
  qed
qed

text \<open>
  C1. For every analysis and query, if the call to the language model fails (the prompt
  was sent and the service, or the reading of its answer, raised), \<open>get_advisory\<close>
  returns a degraded response whose \<open>advice\<close> is the failure message and which has
  no \<open>data_summary\<close>; nothing is raised on this path. The fields of the analysis
  are read and the prompt is built before the \<open>try\<close> block: an analysis for which
  that raises never reaches the call.
\<close>

theorem failed_call_degrades:
  assumes called: "llm_calls (snd (get_advisory e a q force w)) = llm_calls w @ [p]"
    and failed: "chat_completion e p = Inl err"
  shows "\<exists>crop d.
     subscript a ''crop'' = Inr crop \<and>
     fst (get_advisory e a q force w) = Inr (PDict d) \<and>
     d = [(''query'', PStr q),
          (''crop'', crop),
          (''advice'', PStr (''Unable to generate advisory at this time. Error: '' @ err)),
          (''timestamp'', PStr (strftime e ''%Y-%m-%d %H:%M:%S'' (now e)))] \<and>
     map_of d ''data_summary'' = None"
proof -
  from advisory_cases [of force w e a q]
  obtain w2 where w2: "llm_calls w2 = llm_calls w"
    and gen: "get_advisory e a q force w = generate_advisory e a q w2"
    using called by auto
  from called gen w2 have calls: "llm_calls (snd (generate_advisory e a q w2)) = llm_calls w2 @ [p]"
    by simp
  then obtain crop pa sa wa where prep: "prepare_prompt e a q = Inr (crop, pa, sa, wa, p)"
    unfolding generate_calls by (auto split: sum.splits prod.splits)
  then have crop: "subscript a ''crop'' = Inr crop"
    by (auto simp: prepare_prompt_def and_then_def split: sum.splits)
  from generate_failed [OF prep failed, of w2] gen crop show ?thesis by simp
qed

text \<open>
  C10. A degraded response is not written to the cache: when the call to the language
  model fails, the files of the cache are what they were, and the next call with the same
  analysis, query and flag sends the prompt again; when the model then answers (and the
  entry can be written), that call returns the new advice with its own timestamp.
\<close>

theorem failure_not_cached:
  assumes called: "llm_calls (snd (get_advisory e a q force w)) = llm_calls w @ [p]"
    and failed: "chat_completion e p = Inl err"
  shows "cache_files (snd (get_advisory e a q force w)) = cache_files w \<and>
     llm_calls (snd (get_advisory (e\<lparr>chat_completion := next_llm, now := next_now, write_error := next_write\<rparr>)
                       a q force (snd (get_advisory e a q force w)))) =
       llm_calls (snd (get_advisory e a q force w)) @ [p] \<and>
     (next_llm p = Inr advice \<and> next_write (cache_file e a q) = None \<longrightarrow>
        (\<exists>d. fst (get_advisory (e\<lparr>chat_completion := next_llm, now := next_now, write_error := next_write\<rparr>)
                   a q force (snd (get_advisory e a q force w))) = Inr (PDict d) \<and>
             map_of d ''advice'' = Some (PStr advice) \<and>
             map_of d ''timestamp'' = Some (PStr (strftime e ''%Y-%m-%d %H:%M:%S'' next_now))))"
proof -
  let ?e2 = "e\<lparr>chat_completion := next_llm, now := next_now, write_error := next_write\<rparr>"
  let ?w' = "snd (get_advisory e a q force w)"
  from advisory_cases [of force w e a q]
  obtain w2 where w2: "llm_calls w2 = llm_calls w" "cache_files w2 = cache_files w"
    and miss: "force \<or> (\<forall>r. cache_files w (cache_file e a q) \<noteq> Some (Stored r))"
    and gen: "get_advisory e a q force w = generate_advisory e a q w2"
    using called by auto
  from called gen w2 have calls: "llm_calls (snd (generate_advisory e a q w2)) = llm_calls w2 @ [p]"
    by simp
  then obtain crop pa sa wa where prep: "prepare_prompt e a q = Inr (crop, pa, sa, wa, p)"
    unfolding generate_calls by (auto split: sum.splits prod.splits)
  have first: "cache_files ?w' = cache_files w"
    using generate_failed [OF prep failed, of w2] gen w2 by simp
  have path: "cache_file ?e2 a q = cache_file e a q"
    by (rule cache_file_cong) simp_all
  have prep2: "prepare_prompt ?e2 a q = Inr (crop, pa, sa, wa, p)"
    using prep prepare_prompt_cong [of ?e2 e a q] by simp
  from advisory_cases [of force ?w' ?e2 a q] miss first path
  obtain w3 where w3: "llm_calls w3 = llm_calls ?w'"
    and gen2: "get_advisory ?e2 a q force ?w' = generate_advisory ?e2 a q w3"
    by auto
  have second: "llm_calls (snd (get_advisory ?e2 a q force ?w')) = llm_calls ?w' @ [p]"
    using gen2 w3 prep2 by (simp add: generate_calls)
  have third: "\<exists>d. fst (get_advisory ?e2 a q force ?w') = Inr (PDict d) \<and>
             map_of d ''advice'' = Some (PStr advice) \<and>
             map_of d ''timestamp'' = Some (PStr (strftime e ''%Y-%m-%d %H:%M:%S'' next_now))"
    if ok: "next_llm p = Inr advice" "next_write (cache_file e a q) = None"
  proof -
    have c: "chat_completion ?e2 p = Inr advice" using ok by simp
    have wr: "write_error ?e2 (cache_file ?e2 a q) = None" using ok path by simp
    from generate_stored [OF prep2 c wr, of w3] gen2 show ?thesis
      by (simp add: advisory_response_def)
  qed
  from first second third show ?thesis by blast
qed


lemma example_prepare_env:
  assumes "py_str e' = py_str example_env" and "format_f e' = format_f example_env"
  shows "\<exists>pa sa wa. prepare_prompt e' example_analysis ''Sell?'' =
           Inr (PStr ''wheat'', pa, sa, wa, example_prompt)"
proof -
  from example_prepare [of "''Sell?''"] obtain pa sa wa prompt
    where prep: "prepare_prompt example_env example_analysis ''Sell?'' =
                   Inr (PStr ''wheat'', pa, sa, wa, prompt)"
    by blast
  then have "example_prompt = prompt" by (simp add: example_prompt_def)
  with prep prepare_prompt_cong [OF assms, of example_analysis "''Sell?''"] show ?thesis
    by simp
qed

lemma fresh_world_fields:
  "cache_files fresh_world = Map.empty" "llm_calls fresh_world = []"
  by (simp_all add: fresh_world_def)

lemma example_failed_call:
  "llm_calls (snd (get_advisory failing_env example_analysis ''Sell?'' False fresh_world)) =
     llm_calls fresh_world @ [example_prompt]"
  "chat_completion failing_env example_prompt = Inl ''Connection error.''"
  "cache_files (snd (get_advisory failing_env example_analysis ''Sell?'' False fresh_world)) =
     Map.empty"
  "fst (get_advisory failing_env example_analysis ''Sell?'' False fresh_world) =
     Inr (PDict
        [(''query'', PStr ''Sell?''),
         (''crop'', PStr ''wheat''),
         (''advice'', PStr ''Unable to generate advisory at this time. Error: Connection error.''),
         (''timestamp'', PStr ''day 7'')])"
proof -
  obtain pa sa wa where prep: "prepare_prompt failing_env example_analysis ''Sell?'' =
      Inr (PStr ''wheat'', pa, sa, wa, example_prompt)"
    using example_prepare_env [of failing_env] by (auto simp: failing_env_def)
  show failed: "chat_completion failing_env example_prompt = Inl ''Connection error.''"
    by (simp add: failing_env_def)
  have miss: "get_advisory failing_env example_analysis ''Sell?'' False fresh_world =
      generate_advisory failing_env example_analysis ''Sell?'' fresh_world"
    by (simp add: advisory_miss fresh_world_fields)
  note gen = generate_failed [OF prep failed, of fresh_world]
  show "llm_calls (snd (get_advisory failing_env example_analysis ''Sell?'' False fresh_world)) =
     llm_calls fresh_world @ [example_prompt]"
    by (simp add: miss gen)
  show "cache_files (snd (get_advisory failing_env example_analysis ''Sell?'' False fresh_world)) =
     Map.empty"
    by (simp add: miss gen fresh_world_fields)
  show "fst (get_advisory failing_env example_analysis ''Sell?'' False fresh_world) =
     Inr (PDict
        [(''query'', PStr ''Sell?''),
         (''crop'', PStr ''wheat''),
         (''advice'', PStr ''Unable to generate advisory at this time. Error: Connection error.''),
         (''timestamp'', PStr ''day 7'')])"
    by (simp add: miss gen) (simp add: failing_env_def example_env_def)
qed

text \<open>The example with a model that fails.\<close>

theorem failed_call_degrades_witness:
  "llm_calls (snd (get_advisory failing_env example_analysis ''Sell?'' False fresh_world)) =
     llm_calls fresh_world @ [example_prompt] \<and>
   chat_completion failing_env example_prompt = Inl ''Connection error.'' \<and>
   (\<exists>d. fst (get_advisory failing_env example_analysis ''Sell?'' False fresh_world) = Inr (PDict d) \<and>
        map_of d ''advice'' =
          Some (PStr ''Unable to generate advisory at this time. Error: Connection error.'') \<and>
        map_of d ''data_summary'' = None)"
  using failed_call_degrades [OF example_failed_call(1) example_failed_call(2)]
    example_failed_call(1) example_failed_call(2)
  by auto

text \<open>The same call a day later, the model answering again.\<close>

theorem failure_not_cached_witness:
  "cache_files (snd (get_advisory failing_env example_analysis ''Sell?'' False fresh_world)) =
     cache_files fresh_world \<and>
   (\<exists>d. fst (get_advisory
               (failing_env\<lparr>chat_completion := (\<lambda>prompt. Inr ''Hold for now.''), now := day 8,
                             write_error := (\<lambda>path. None)\<rparr>)
               example_analysis ''Sell?'' False
               (snd (get_advisory failing_env example_analysis ''Sell?'' False fresh_world))) =
          Inr (PDict d) \<and>
        map_of d ''advice'' = Some (PStr ''Hold for now.'') \<and>
        map_of d ''timestamp'' = Some (PStr ''later''))"
proof -
  have t: "strftime failing_env ''%Y-%m-%d %H:%M:%S'' (day 8) = ''later''"
    by (simp add: failing_env_def example_env_def day_def)
  from failure_not_cached [OF example_failed_call(1) example_failed_call(2),
      where next_llm = "\<lambda>prompt. Inr ''Hold for now.''" and next_now = "day 8"
        and next_write = "\<lambda>path. None" and advice = "''Hold for now.''"]
  show ?thesis by (simp add: t)
qed

text \<open>
  C4, as amended. Two calls of \<open>get_advisory\<close> with the same analysis and query and
  without a forced refresh return the same response, with the timestamp of the first,
  whenever the first call left its response in the cache: it was served from a stored
  entry, or the prompt was built, the language model answered and the entry was written.
  The second call is then a cache hit whatever the clock, the model and the file system
  do. The key of the entry is the MD5 digest of \<open>str(analysis) + '_' + query\<close> and
  of nothing else, so the same analysis and query always name the same entry.
\<close>

theorem stored_advisory_served_unchanged:
  assumes "(\<exists>v. cache_files w (cache_file e a q) = Some (Stored v)) \<or>
           (\<exists>crop pa sa wa prompt advice.
              prepare_prompt e a q = Inr (crop, pa, sa, wa, prompt) \<and>
              chat_completion e prompt = Inr advice \<and>
              write_error e (cache_file e a q) = None)"
  shows "\<exists>r. fst (get_advisory e a q False w) = Inr r \<and>
     cache_files (snd (get_advisory e a q False w)) (cache_file e a q) = Some (Stored r) \<and>
     fst (get_advisory (e\<lparr>chat_completion := next_llm, now := next_now, write_error := next_write\<rparr>)
            a q False (snd (get_advisory e a q False w))) = Inr r \<and>
     cache_key (e\<lparr>chat_completion := next_llm, now := next_now, write_error := next_write\<rparr>) a q =
       md5_hexdigest e (str_of e a @ ''_'' @ q)"
proof -
  let ?e2 = "e\<lparr>chat_completion := next_llm, now := next_now, write_error := next_write\<rparr>"
  let ?w' = "snd (get_advisory e a q False w)"
  have path: "cache_file ?e2 a q = cache_file e a q"
    by (rule cache_file_cong) simp_all
  have key: "cache_key ?e2 a q = md5_hexdigest e (str_of e a @ ''_'' @ q)"
    using str_of_cong [of ?e2 e] by (simp add: cache_key_def)
  have again: "fst (get_advisory ?e2 a q False ?w') = Inr r"
    if "cache_files ?w' (cache_file e a q) = Some (Stored r)" for r
    using that advisory_hit [of ?w' ?e2 a q r] path by simp
  show ?thesis
  proof (cases "\<exists>v. cache_files w (cache_file e a q) = Some (Stored v)")
    case True
    then obtain v where v: "cache_files w (cache_file e a q) = Some (Stored v)" by blast
    from advisory_hit [OF v] have "fst (get_advisory e a q False w) = Inr v"
      and "cache_files ?w' (cache_file e a q) = Some (Stored v)"
      using v by simp_all
    with again key show ?thesis by blast
  next
    case False
    with assms obtain crop pa sa wa prompt advice
      where prep: "prepare_prompt e a q = Inr (crop, pa, sa, wa, prompt)"
        and ok: "chat_completion e prompt = Inr advice"
        and wr: "write_error e (cache_file e a q) = None"
      by blast
    from advisory_cases [of False w e a q] False
    obtain w2 where gen: "get_advisory e a q False w = generate_advisory e a q w2"
      by auto
    let ?r = "advisory_response e q crop advice pa sa wa"
    from generate_stored [OF prep ok wr, of w2] gen
    have "fst (get_advisory e a q False w) = Inr ?r"
      and "cache_files ?w' (cache_file e a q) = Some (Stored ?r)"
      by simp_all
    with again key show ?thesis by blast
  qed
qed


text \<open>
  C4 as stated fails: when the model fails in the first call nothing is stored, and the
  second call, a day later with the model answering, returns another response.
\<close>

theorem failed_first_call_differs:
  "fst (get_advisory later_env example_analysis ''Sell?'' False
          (snd (get_advisory failing_env example_analysis ''Sell?'' False fresh_world))) \<noteq>
   fst (get_advisory failing_env example_analysis ''Sell?'' False fresh_world)"
proof -
  let ?w' = "snd (get_advisory failing_env example_analysis ''Sell?'' False fresh_world)"
  obtain pa sa wa where prep: "prepare_prompt later_env example_analysis ''Sell?'' =
      Inr (PStr ''wheat'', pa, sa, wa, example_prompt)"
    using example_prepare_env [of later_env] by (auto simp: later_env_def)
  have ok: "chat_completion later_env example_prompt = Inr ''Hold for now.''"
    by (simp add: later_env_def example_env_def)
  have wr: "write_error later_env (cache_file later_env example_analysis ''Sell?'') = None"
    by (simp add: later_env_def example_env_def)
  have miss: "get_advisory later_env example_analysis ''Sell?'' False ?w' =
      generate_advisory later_env example_analysis ''Sell?'' ?w'"
    by (simp add: advisory_miss example_failed_call(3))
  from generate_stored [OF prep ok wr, of ?w'] miss
  have "fst (get_advisory later_env example_analysis ''Sell?'' False ?w') =
      Inr (advisory_response later_env ''Sell?'' (PStr ''wheat'') ''Hold for now.'' pa sa wa)"
    by simp
  then show ?thesis
    by (simp add: example_failed_call(4) advisory_response_def)
qed

text \<open>
  The example: the first call stores its response; a day later the model is down and the
  cache cannot be written, and the second call still returns the response of day 7.
\<close>

theorem stored_advisory_served_unchanged_witness:
  "fst (get_advisory
          (example_env\<lparr>chat_completion := (\<lambda>prompt. Inl ''Connection error.''), now := day 8,
                        write_error := (\<lambda>path. Some ''Permission denied'')\<rparr>)
          example_analysis ''Sell?'' False
          (snd (get_advisory example_env example_analysis ''Sell?'' False fresh_world))) =
   fst (get_advisory example_env example_analysis ''Sell?'' False fresh_world) \<and>
   (\<exists>d. fst (get_advisory example_env example_analysis ''Sell?'' False fresh_world) = Inr (PDict d) \<and>
        map_of d ''advice'' = Some (PStr ''Hold for now.'') \<and>
        map_of d ''timestamp'' = Some (PStr ''day 7''))"
proof -
  obtain pa sa wa where prep: "prepare_prompt example_env example_analysis ''Sell?'' =
      Inr (PStr ''wheat'', pa, sa, wa, example_prompt)"
    using example_prepare_env [of example_env] by auto
  have ok: "chat_completion example_env example_prompt = Inr ''Hold for now.''"
    by (simp add: example_env_def)
  have wr: "write_error example_env (cache_file example_env example_analysis ''Sell?'') = None"
    by (simp add: example_env_def)
  have miss: "get_advisory example_env example_analysis ''Sell?'' False fresh_world =
      generate_advisory example_env example_analysis ''Sell?'' fresh_world"
    by (simp add: advisory_miss fresh_world_fields)
  have t: "strftime example_env ''%Y-%m-%d %H:%M:%S'' (now example_env) = ''day 7''"
    by (simp add: example_env_def)
  from generate_stored [OF prep ok wr, of fresh_world] miss
  have first: "fst (get_advisory example_env example_analysis ''Sell?'' False fresh_world) =
      Inr (advisory_response example_env ''Sell?'' (PStr ''wheat'') ''Hold for now.'' pa sa wa)"
    by simp
  have cause: "(\<exists>v. cache_files fresh_world (cache_file example_env example_analysis ''Sell?'') =
                   Some (Stored v)) \<or>
           (\<exists>crop pa sa wa prompt advice.
              prepare_prompt example_env example_analysis ''Sell?'' =
                Inr (crop, pa, sa, wa, prompt) \<and>
              chat_completion example_env prompt = Inr advice \<and>
              write_error example_env (cache_file example_env example_analysis ''Sell?'') = None)"
    using prep ok wr by blast
  from stored_advisory_served_unchanged [OF cause,
      where next_llm = "\<lambda>prompt. Inl ''Connection error.''" and next_now = "day 8"
        and next_write = "\<lambda>path. Some ''Permission denied''"]
  have same: "fst (get_advisory
          (example_env\<lparr>chat_completion := (\<lambda>prompt. Inl ''Connection error.''), now := day 8,
                        write_error := (\<lambda>path. Some ''Permission denied'')\<rparr>)
          example_analysis ''Sell?'' False
          (snd (get_advisory example_env example_analysis ''Sell?'' False fresh_world))) =
   fst (get_advisory example_env example_analysis ''Sell?'' False fresh_world)"
    by auto
  from same first t show ?thesis
    by (simp add: advisory_response_def)
qed

text \<open>
  C8 claims that a failure of the cache, reading or writing, never replaces the advice of
  a successful model call by a degraded response. Reading is handled so (see
  \<open>unreadable_entry_regenerates\<close> below). Writing is inside the \<open>try\<close> block of the
  model call: when the model answers and the write fails, the handler returns the
  degraded response and the advice is lost.
\<close>

theorem write_failure_discards_advice:
  "chat_completion write_fails_env example_prompt = Inr ''Hold for now.'' \<and>
   llm_calls (snd (get_advisory write_fails_env example_analysis ''Sell?'' False fresh_world)) =
     [example_prompt] \<and>
   fst (get_advisory write_fails_env example_analysis ''Sell?'' False fresh_world) =
     Inr (PDict
        [(''query'', PStr ''Sell?''),
         (''crop'', PStr ''wheat''),
         (''advice'', PStr ''Unable to generate advisory at this time. Error: Permission denied''),
         (''timestamp'', PStr ''day 7'')])"
proof -
  obtain pa sa wa where prep: "prepare_prompt write_fails_env example_analysis ''Sell?'' =
      Inr (PStr ''wheat'', pa, sa, wa, example_prompt)"
    using example_prepare_env [of write_fails_env] by (auto simp: write_fails_env_def)
  have ok: "chat_completion write_fails_env example_prompt = Inr ''Hold for now.''"
    by (simp add: write_fails_env_def example_env_def)
  have wr: "write_error write_fails_env (cache_file write_fails_env example_analysis ''Sell?'') =
      Some ''Permission denied''"
    by (simp add: write_fails_env_def)
  have miss: "get_advisory write_fails_env example_analysis ''Sell?'' False fresh_world =
      generate_advisory write_fails_env example_analysis ''Sell?'' fresh_world"
    by (simp add: advisory_miss fresh_world_fields)
  have t: "strftime write_fails_env ''%Y-%m-%d %H:%M:%S'' (now write_fails_env) = ''day 7''"
    by (simp add: write_fails_env_def example_env_def)
  from generate_write_failed [OF prep ok wr, of fresh_world] miss ok t show ?thesis
    by (simp add: fresh_world_fields)
qed

text \<open>An entry that cannot be read is logged and the advisory is generated anew.\<close>

lemma unreadable_entry_regenerates:
  assumes "cache_files w (cache_file e a q) = Some (Unreadable err)"
    and "prepare_prompt e a q = Inr (crop, pa, sa, wa, prompt)"
    and "chat_completion e prompt = Inr advice"
    and "write_error e (cache_file e a q) = None"
  shows "fst (get_advisory e a q False w) = Inr (advisory_response e q crop advice pa sa wa)"
    and "(ERROR, ''Error reading cache: '' @ err) \<in> set (logged (snd (get_advisory e a q False w)))"
  using advisory_unreadable [OF assms(1), of False]
    generate_stored [OF assms(2,3,4), of "logging ERROR (''Error reading cache: '' @ err) w"]
  by (simp_all add: logging_def)

section \<open>The aggregator: what is stored is not computed again\<close>

lemma fst_case_sum:
  "fst (case x of Inl a \<Rightarrow> f a | Inr b \<Rightarrow> g b) = (case x of Inl a \<Rightarrow> fst (f a) | Inr b \<Rightarrow> fst (g b))"
  by (cases x) simp_all

lemma comprehensive_result:
  "fst (get_comprehensive_analysis e crop timeframe w) =
     (let w0 = logging INFO (''Generating comprehensive analysis for '' @ crop) w;
          p1 = (if analysis_results w0 (crop @ ''_'' @ timeframe) = None
                then analyze_price_trends e crop timeframe w0 else (Inr None, w0));
          p2 = (if analysis_results (snd p1) (crop @ ''_sentiment'') = None
                then analyze_market_sentiment e crop (snd p1) else (Inr None, snd p1));
          w3 = (if analysis_results (snd p2) (crop @ ''_weather'') = None
                then snd (analyze_weather_impact e crop ''midwest'' (snd p2)) else snd p2)
      in case fst p1 of Inl err \<Rightarrow> Inl err
         | Inr x \<Rightarrow>
            (case fst p2 of Inl err \<Rightarrow> Inl err
             | Inr y \<Rightarrow> Inr (PDict
                 [(''crop'', PStr crop),
                  (''timeframe'', PStr timeframe),
                  (''price_analysis'', results_get w3 (crop @ ''_'' @ timeframe)),
                  (''sentiment_analysis'', results_get w3 (crop @ ''_sentiment'')),
                  (''weather_analysis'', results_get w3 (crop @ ''_weather'')),
                  (''analysis_date'', PStr (strftime e ''%Y-%m-%d'' (now e)))])))"
  by (simp only: get_comprehensive_analysis_def Let_def split_beta fst_case_sum fst_conv)

lemma price_stores:
  assumes "filter_timeframe e tf (load_or_fetch_historical_prices e crop) \<noteq> []"
  shows "analysis_results (snd (analyze_price_trends e crop tf w)) (crop @ ''_'' @ tf) \<noteq> None"
proof -
  from assms have ne: "load_or_fetch_historical_prices e crop \<noteq> []"
    by (auto simp: filter_timeframe_def)
  show ?thesis
    using assms ne
    by (simp add: analyze_price_trends_def Let_def split_beta generate_price_chart_def
        split: option.splits)
qed

lemma sentiment_returns: "\<exists>r. fst (analyze_market_sentiment e crop w) = Inr r"
proof -
  obtain score where
    "sentiment_score (value_count (load_or_fetch_market_news e crop) ''positive'')
       (value_count (load_or_fetch_market_news e crop) ''negative'')
       (value_count (load_or_fetch_market_news e crop) ''neutral'') = Inr score"
    using sentiment_score_total by blast
  then show ?thesis
    by (simp add: analyze_market_sentiment_def Let_def)
qed

lemma sentiment_stores:
  assumes "load_or_fetch_market_news e crop \<noteq> []"
  shows "analysis_results (snd (analyze_market_sentiment e crop w)) (crop @ ''_sentiment'') \<noteq> None"
proof -
  obtain score where
    "sentiment_score (value_count (load_or_fetch_market_news e crop) ''positive'')
       (value_count (load_or_fetch_market_news e crop) ''negative'')
       (value_count (load_or_fetch_market_news e crop) ''neutral'') = Inr score"
    using sentiment_score_total by blast
  with assms show ?thesis
    by (simp add: analyze_market_sentiment_def Let_def)
qed

lemma weather_stores:
  "load_or_fetch_weather_forecast e r \<noteq> [] \<Longrightarrow>
   analysis_results (snd (analyze_weather_impact e crop r w)) (crop @ ''_weather'') \<noteq> None"
  by (simp add: analyze_weather_impact_def Let_def split_beta)

lemma price_none_stores_nothing:
  "filter_timeframe e tf (load_or_fetch_historical_prices e crop) = [] \<Longrightarrow>
   analysis_results (snd (analyze_price_trends e crop tf w)) = analysis_results w"
  by (simp add: analyze_price_trends_def Let_def)

lemma sentiment_none_stores_nothing:
  "load_or_fetch_market_news e crop = [] \<Longrightarrow>
   analysis_results (snd (analyze_market_sentiment e crop w)) = analysis_results w"
  by (simp add: sentiment_no_news)

lemma weather_none_stores_nothing:
  "load_or_fetch_weather_forecast e r = [] \<Longrightarrow>
   analysis_results (snd (analyze_weather_impact e crop r w)) = analysis_results w"
  by (simp add: analyze_weather_impact_def)

lemma price_logs_own:
  "times_logged (''Analyzing price trends for '' @ crop @ '' over '' @ tf)
     (snd (analyze_price_trends e crop tf w)) =
   Suc (times_logged (''Analyzing price trends for '' @ crop @ '' over '' @ tf) w)"
  by (simp add: analyze_price_trends_def Let_def split_beta generate_price_chart_def
      times_logged_def split: option.splits)

lemma sentiment_logs_own:
  "times_logged (''Analyzing market sentiment for '' @ crop)
     (snd (analyze_market_sentiment e crop w)) =
   Suc (times_logged (''Analyzing market sentiment for '' @ crop) w)"
  by (simp add: analyze_market_sentiment_def Let_def times_logged_def split: sum.splits)

lemma weather_logs_own:
  "times_logged (''Analyzing weather impact for '' @ crop @ '' in '' @ r)
     (snd (analyze_weather_impact e crop r w)) =
   Suc (times_logged (''Analyzing weather impact for '' @ crop @ '' in '' @ r) w)"
  by (simp add: analyze_weather_impact_def Let_def split_beta times_logged_def)


text \<open>
  C9, as amended. \<open>get_comprehensive_analysis\<close> keeps each sub-analysis in the
  analysis-results mapping under its key (crop and timeframe for the price analysis, the
  crop for sentiment and for weather). A call never runs the analyzer of a key that is
  already present (the message that starts the analyzer is not logged again), never
  removes a key, and starts each analyzer at most once. An analyzer that yields a result
  stores it under that key: the price analyzer whenever the window is not empty, the
  sentiment and the weather analyzer whenever their table is not empty and the call
  returns; the next call for the same crop and timeframe, whatever its data, then does not
  run that analyzer again. An analyzer that yields no result stores nothing, which is why
  the claim's "at most once per key" fails for it.
\<close>

theorem memoized_sections_run_once:
  "(analysis_results w (crop @ ''_'' @ timeframe) \<noteq> None \<longrightarrow>
      times_logged (''Analyzing price trends for '' @ crop @ '' over '' @ timeframe) (snd (get_comprehensive_analysis e crop timeframe w)) =
        times_logged (''Analyzing price trends for '' @ crop @ '' over '' @ timeframe) w) \<and>
   (analysis_results w (crop @ ''_sentiment'') \<noteq> None \<longrightarrow>
      times_logged (''Analyzing market sentiment for '' @ crop) (snd (get_comprehensive_analysis e crop timeframe w)) =
        times_logged (''Analyzing market sentiment for '' @ crop) w) \<and>
   (analysis_results w (crop @ ''_weather'') \<noteq> None \<longrightarrow>
      times_logged (''Analyzing weather impact for '' @ crop @ '' in midwest'') (snd (get_comprehensive_analysis e crop timeframe w)) =
        times_logged (''Analyzing weather impact for '' @ crop @ '' in midwest'') w) \<and>
   (\<forall>k. analysis_results w k \<noteq> None \<longrightarrow> analysis_results (snd (get_comprehensive_analysis e crop timeframe w)) k \<noteq> None) \<and>
   (filter_timeframe e timeframe (load_or_fetch_historical_prices e crop) \<noteq> [] \<longrightarrow>
      analysis_results (snd (get_comprehensive_analysis e crop timeframe w)) (crop @ ''_'' @ timeframe) \<noteq> None \<and>
      times_logged (''Analyzing price trends for '' @ crop @ '' over '' @ timeframe)
          (snd (get_comprehensive_analysis e' crop timeframe
            (snd (get_comprehensive_analysis e crop timeframe w)))) =
        times_logged (''Analyzing price trends for '' @ crop @ '' over '' @ timeframe) (snd (get_comprehensive_analysis e crop timeframe w))) \<and>
   (load_or_fetch_market_news e crop \<noteq> [] \<and> (\<exists>c. fst (get_comprehensive_analysis e crop timeframe w) = Inr c) \<longrightarrow>
      analysis_results (snd (get_comprehensive_analysis e crop timeframe w)) (crop @ ''_sentiment'') \<noteq> None \<and>
      times_logged (''Analyzing market sentiment for '' @ crop)
          (snd (get_comprehensive_analysis e' crop timeframe
            (snd (get_comprehensive_analysis e crop timeframe w)))) =
        times_logged (''Analyzing market sentiment for '' @ crop) (snd (get_comprehensive_analysis e crop timeframe w))) \<and>
   (load_or_fetch_weather_forecast e ''midwest'' \<noteq> [] \<and> (\<exists>c. fst (get_comprehensive_analysis e crop timeframe w) = Inr c) \<longrightarrow>
      analysis_results (snd (get_comprehensive_analysis e crop timeframe w)) (crop @ ''_weather'') \<noteq> None \<and>
      times_logged (''Analyzing weather impact for '' @ crop @ '' in midwest'')
          (snd (get_comprehensive_analysis e' crop timeframe
            (snd (get_comprehensive_analysis e crop timeframe w)))) =
        times_logged (''Analyzing weather impact for '' @ crop @ '' in midwest'') (snd (get_comprehensive_analysis e crop timeframe w))) \<and>
   times_logged (''Analyzing price trends for '' @ crop @ '' over '' @ timeframe) (snd (get_comprehensive_analysis e crop timeframe w)) \<le>
     Suc (times_logged (''Analyzing price trends for '' @ crop @ '' over '' @ timeframe) w) \<and>
   times_logged (''Analyzing market sentiment for '' @ crop) (snd (get_comprehensive_analysis e crop timeframe w)) \<le>
     Suc (times_logged (''Analyzing market sentiment for '' @ crop) w) \<and>
   times_logged (''Analyzing weather impact for '' @ crop @ '' in midwest'') (snd (get_comprehensive_analysis e crop timeframe w)) \<le>
     Suc (times_logged (''Analyzing weather impact for '' @ crop @ '' in midwest'') w) \<and>
   (filter_timeframe e timeframe (load_or_fetch_historical_prices e crop) = [] \<longrightarrow>
      analysis_results (snd (analyze_price_trends e crop timeframe w)) = analysis_results w) \<and>
   (load_or_fetch_market_news e crop = [] \<longrightarrow>
      analysis_results (snd (analyze_market_sentiment e crop w)) = analysis_results w) \<and>
   (load_or_fetch_weather_forecast e ''midwest'' = [] \<longrightarrow>
      analysis_results (snd (analyze_weather_impact e crop ''midwest'' w)) = analysis_results w)"
proof -
  define mp where "mp = ''Analyzing price trends for '' @ crop @ '' over '' @ timeframe"
  define ms where "ms = ''Analyzing market sentiment for '' @ crop"
  define mw where "mw = ''Analyzing weather impact for '' @ crop @ '' in midwest''"
  define pk where "pk = crop @ ''_'' @ timeframe"
  define sk where "sk = crop @ ''_sentiment''"
  define wk where "wk = crop @ ''_weather''"
  define w0 where "w0 = logging INFO (''Generating comprehensive analysis for '' @ crop) w"
  define p1 where "p1 = (if analysis_results w0 (crop @ ''_'' @ timeframe) = None
                then analyze_price_trends e crop timeframe w0 else (Inr None, w0))"
  define p2 where "p2 = (if analysis_results (snd p1) (crop @ ''_sentiment'') = None
                then analyze_market_sentiment e crop (snd p1) else (Inr None, snd p1))"
  define w3 where "w3 = (if analysis_results (snd p2) (crop @ ''_weather'') = None
                then snd (analyze_weather_impact e crop ''midwest'' (snd p2)) else snd p2)"
  define w1 where "w1 = snd (get_comprehensive_analysis e crop timeframe w)"
  define w2 where "w2 = snd (get_comprehensive_analysis e' crop timeframe w1)"
  define returns where "returns = (\<exists>c. fst (get_comprehensive_analysis e crop timeframe w) = Inr c)"
  have r2: "\<exists>y. fst p2 = Inr y"
    using sentiment_returns [of e crop "snd p1"] by (simp add: p2_def)
  have state: "w1 = (case fst p1 of Inl err \<Rightarrow> snd p1 | Inr x \<Rightarrow> w3)"
    using r2 unfolding w1_def comprehensive_state Let_def w0_def [symmetric] p1_def [symmetric]
      p2_def [symmetric] w3_def [symmetric]
    by (auto split: sum.splits)
  have result: "returns = (\<exists>x. fst p1 = Inr x)"
    using r2 unfolding returns_def comprehensive_result Let_def w0_def [symmetric]
      p1_def [symmetric] p2_def [symmetric] w3_def [symmetric]
    by (auto split: sum.splits)
  have final: "w1 = snd p1 \<or> w1 = w3"
    using state by (auto split: sum.splits)
  have returned: "w1 = w3" if returns
    using that state result by auto
  have keep2: "analysis_results (snd p2) k \<noteq> None" if "analysis_results (snd p1) k \<noteq> None" for k
    using that by (simp add: p2_def sentiment_keeps_keys del: not_None_eq)
  have keep3: "analysis_results w3 k \<noteq> None" if "analysis_results (snd p2) k \<noteq> None" for k
    using that by (simp add: w3_def weather_keeps_keys del: not_None_eq)
  have price_key: "analysis_results w1 pk \<noteq> None"
    if win: "filter_timeframe e timeframe (load_or_fetch_historical_prices e crop) \<noteq> []"
  proof -
    have "analysis_results (snd p1) pk \<noteq> None"
      using price_stores [OF win, of w0] by (auto simp: p1_def pk_def)
    with keep2 keep3 final show ?thesis by metis
  qed
  have sentiment_key: "analysis_results w1 sk \<noteq> None"
    if "load_or_fetch_market_news e crop \<noteq> []" returns
  proof -
    have "analysis_results (snd p2) sk \<noteq> None"
      using sentiment_stores [OF that(1), of "snd p1"] by (auto simp: p2_def sk_def)
    with keep3 returned [OF that(2)] show ?thesis by simp
  qed
  have weather_key: "analysis_results w1 wk \<noteq> None"
    if "load_or_fetch_weather_forecast e ''midwest'' \<noteq> []" returns
  proof -
    have "analysis_results w3 wk \<noteq> None"
      using weather_stores [OF that(1), of crop "snd p2"] by (auto simp: w3_def wk_def)
    with returned [OF that(2)] show ?thesis by simp
  qed
  note skip1 = present_keys_skip [of w crop timeframe e, folded w1_def mp_def ms_def mw_def pk_def sk_def wk_def]
  note skip2 = present_keys_skip [of w1 crop timeframe e', folded w2_def mp_def ms_def mw_def pk_def sk_def wk_def]
  have c0: "times_logged mp w0 = times_logged mp w" "times_logged ms w0 = times_logged ms w"
    "times_logged mw w0 = times_logged mw w"
    by (simp_all add: w0_def mp_def ms_def mw_def times_logged_logging)
  have cp1: "times_logged mp (snd p1) \<le> Suc (times_logged mp w0)"
    using price_logs_own [of crop timeframe e w0] by (simp add: p1_def mp_def)
  have cp2: "times_logged mp (snd p2) = times_logged mp (snd p1)"
    using sentiment_logs(1) [of "crop @ '' over '' @ timeframe" e crop "snd p1"]
    by (simp add: p2_def mp_def)
  have cp3: "times_logged mp w3 = times_logged mp (snd p2)"
    using weather_logs(1) [of "crop @ '' over '' @ timeframe" e crop "''midwest''" "snd p2"]
    by (simp add: w3_def mp_def)
  have cs1: "times_logged ms (snd p1) = times_logged ms w0"
    using price_logs(1) [of crop e crop timeframe w0] by (simp add: p1_def ms_def)
  have cs2: "times_logged ms (snd p2) \<le> Suc (times_logged ms (snd p1))"
    using sentiment_logs_own [of crop e "snd p1"] by (simp add: p2_def ms_def)
  have cs3: "times_logged ms w3 = times_logged ms (snd p2)"
    using weather_logs(2) [of crop e crop "''midwest''" "snd p2"] by (simp add: w3_def ms_def)
  have cw1: "times_logged mw (snd p1) = times_logged mw w0"
    using price_logs(2) [of crop "'' in midwest''" e crop timeframe w0] by (simp add: p1_def mw_def)
  have cw2: "times_logged mw (snd p2) = times_logged mw (snd p1)"
    using sentiment_logs(2) [of "crop @ '' in midwest''" e crop "snd p1"]
    by (simp add: p2_def mw_def)
  have cw3: "times_logged mw w3 \<le> Suc (times_logged mw (snd p2))"
    using weather_logs_own [of crop "''midwest''" e "snd p2"] by (simp add: w3_def mw_def)
  have once_p: "times_logged mp w1 \<le> Suc (times_logged mp w)"
    using final c0(1) cp1 cp2 cp3 by (elim disjE) simp_all
  have once_s: "times_logged ms w1 \<le> Suc (times_logged ms w)"
    using final c0(2) cs1 cs2 cs3 by (elim disjE) simp_all
  have once_w: "times_logged mw w1 \<le> Suc (times_logged mw w)"
    using final c0(3) cw1 cw2 cw3 by (elim disjE) simp_all
  have none: "filter_timeframe e timeframe (load_or_fetch_historical_prices e crop) = [] \<longrightarrow>
      analysis_results (snd (analyze_price_trends e crop timeframe w)) = analysis_results w"
    "load_or_fetch_market_news e crop = [] \<longrightarrow>
      analysis_results (snd (analyze_market_sentiment e crop w)) = analysis_results w"
    "load_or_fetch_weather_forecast e ''midwest'' = [] \<longrightarrow>
      analysis_results (snd (analyze_weather_impact e crop ''midwest'' w)) = analysis_results w"
    by (simp_all add: price_none_stores_nothing sentiment_none_stores_nothing
        weather_none_stores_nothing)
  from skip1 skip2 price_key sentiment_key weather_key once_p once_s once_w none
  show ?thesis
    unfolding w2_def [symmetric] w1_def [symmetric] returns_def [symmetric]
      mp_def [symmetric] ms_def [symmetric] mw_def [symmetric]
      pk_def [symmetric] sk_def [symmetric] wk_def [symmetric]
    by blast
qed


lemma comprehensive_returns:
  assumes "load_or_fetch_historical_prices e crop \<noteq> []"
  shows "\<exists>c. fst (get_comprehensive_analysis e crop timeframe w) = Inr c"
proof -
  define w0 where "w0 = logging INFO (''Generating comprehensive analysis for '' @ crop) w"
  define p1 where "p1 = (if analysis_results w0 (crop @ ''_'' @ timeframe) = None
                then analyze_price_trends e crop timeframe w0 else (Inr None, w0))"
  define p2 where "p2 = (if analysis_results (snd p1) (crop @ ''_sentiment'') = None
                then analyze_market_sentiment e crop (snd p1) else (Inr None, snd p1))"
  define w3 where "w3 = (if analysis_results (snd p2) (crop @ ''_weather'') = None
                then snd (analyze_weather_impact e crop ''midwest'' (snd p2)) else snd p2)"
  have r1: "\<exists>x. fst p1 = Inr x"
    using price_returns [OF assms, of timeframe w0] by (simp add: p1_def)
  have r2: "\<exists>y. fst p2 = Inr y"
    using sentiment_returns [of e crop "snd p1"] by (simp add: p2_def)
  from r1 r2 show ?thesis
    unfolding comprehensive_result Let_def w0_def [symmetric] p1_def [symmetric]
      p2_def [symmetric] w3_def [symmetric]
    by auto
qed

text \<open>
  Two calls for wheat, the second a day later: the first stores all three analyses, and
  after the second each analyzer has been started at most once.
\<close>

theorem memoized_sections_run_once_witness:
  "filter_timeframe example_env ''1 month''
     (load_or_fetch_historical_prices example_env ''wheat'') \<noteq> [] \<and>
   load_or_fetch_market_news example_env ''wheat'' \<noteq> [] \<and>
   load_or_fetch_weather_forecast example_env ''midwest'' \<noteq> [] \<and>
   (\<exists>c. fst (get_comprehensive_analysis example_env ''wheat'' ''1 month'' fresh_world) = Inr c) \<and>
   analysis_results (snd (get_comprehensive_analysis example_env ''wheat'' ''1 month'' fresh_world))
     ''wheat_1 month'' \<noteq> None \<and>
   analysis_results (snd (get_comprehensive_analysis example_env ''wheat'' ''1 month'' fresh_world))
     ''wheat_sentiment'' \<noteq> None \<and>
   analysis_results (snd (get_comprehensive_analysis example_env ''wheat'' ''1 month'' fresh_world))
     ''wheat_weather'' \<noteq> None \<and>
   times_logged ''Analyzing price trends for wheat over 1 month''
     (snd (get_comprehensive_analysis later_env ''wheat'' ''1 month''
        (snd (get_comprehensive_analysis example_env ''wheat'' ''1 month'' fresh_world)))) \<le> 1 \<and>
   times_logged ''Analyzing market sentiment for wheat''
     (snd (get_comprehensive_analysis later_env ''wheat'' ''1 month''
        (snd (get_comprehensive_analysis example_env ''wheat'' ''1 month'' fresh_world)))) \<le> 1 \<and>
   times_logged ''Analyzing weather impact for wheat in midwest''
     (snd (get_comprehensive_analysis later_env ''wheat'' ''1 month''
        (snd (get_comprehensive_analysis example_env ''wheat'' ''1 month'' fresh_world)))) \<le> 1"
proof -
  have win: "filter_timeframe example_env ''1 month''
     (load_or_fetch_historical_prices example_env ''wheat'') \<noteq> []"
    by (simp add: example_window example_prices_def)
  have hist: "load_or_fetch_historical_prices example_env ''wheat'' \<noteq> []"
    by (simp add: example_env_def example_prices_def)
  have news: "load_or_fetch_market_news example_env ''wheat'' \<noteq> []"
    by (simp add: example_env_def example_news_def)
  have weather: "load_or_fetch_weather_forecast example_env ''midwest'' \<noteq> []"
    by (simp add: example_env_def example_weather_def)
  note returns = comprehensive_returns [OF hist, of "''1 month''" fresh_world]
  have zero: "times_logged m fresh_world = 0" for m
    by (simp add: times_logged_def fresh_world_def)
  from memoized_sections_run_once [of fresh_world "''wheat''" "''1 month''" example_env later_env]
    win news weather returns zero
  show ?thesis
    by (simp del: not_None_eq)
qed

end
